theory Spec2Isabelle
  imports Main "HOL-Library.Sublist"
begin

section \<open>Python strings and exceptions\<close>

text \<open>
  The exceptions the script can raise. \<open>LibraryError\<close> stands for any exception class of
  an external library (caption retrieval, audio download, speech-to-text, completion
  service, operating system); \<open>PyException\<close> is the plain \<^verbatim>\<open>Exception(msg)\<close> that
  \<^verbatim>\<open>download_audio\<close> and \<^verbatim>\<open>transcribe_audio\<close> raise.
\<close>

datatype error =
    IndexError
  | ValueError string
  | PyException string
  | LibraryError string

text \<open>\<^verbatim>\<open>str(e)\<close>.\<close>

fun str_of_error :: "error \<Rightarrow> string" where
  "str_of_error IndexError = ''list index out of range''"
| "str_of_error (ValueError m) = m"
| "str_of_error (PyException m) = m"
| "str_of_error (LibraryError m) = m"

text \<open>\<^verbatim>\<open>sub in s\<close>: \<open>sub\<close> occurs in \<open>s\<close> as a contiguous substring.\<close>

fun str_contains :: "string \<Rightarrow> string \<Rightarrow> bool" where
  "str_contains sub [] = (sub = [])"
| "str_contains sub (c # cs) = (prefix sub (c # cs) \<or> str_contains sub cs)"

text \<open>
  \<^verbatim>\<open>s.split(sep)\<close> for a non-empty separator: scan from the left, cut at every
  occurrence of \<open>sep\<close> and resume after it. \<open>acc\<close> holds the current piece, reversed.
  (Python raises ValueError on an empty separator; every separator of the script is
  a non-empty literal, and the guard keeps the scan going character by character.)
\<close>

function str_split_acc :: "string \<Rightarrow> string \<Rightarrow> string \<Rightarrow> string list" where
  "str_split_acc sep acc s =
     (if s = [] then [rev acc]
      else if sep \<noteq> [] \<and> prefix sep s
        then rev acc # str_split_acc sep [] (drop (length sep) s)
      else str_split_acc sep (hd s # acc) (tl s))"
  by pat_completeness auto
termination
  by (relation "measure (\<lambda>(sep, acc, s). length s)") auto

declare str_split_acc.simps [simp del]

definition str_split :: "string \<Rightarrow> string \<Rightarrow> string list" where
  "str_split sep s = str_split_acc sep [] s"

text \<open>\<^verbatim>\<open>xs[i]\<close> for a non-negative index: IndexError out of range.\<close>

definition index_py :: "'a list \<Rightarrow> nat \<Rightarrow> error + 'a" where
  "index_py xs i = (if i < length xs then Inr (xs ! i) else Inl IndexError)"

text \<open>\<^verbatim>\<open>sep.join(xs)\<close>.\<close>

fun str_join :: "string \<Rightarrow> string list \<Rightarrow> string" where
  "str_join sep [] = []"
| "str_join sep [x] = x"
| "str_join sep (x # y # ys) = x @ sep @ str_join sep (y # ys)"

section \<open>The video-id extraction block (app.py, lines 224-229)\<close>

definition extract_video_id :: "string \<Rightarrow> error + string" where
  "extract_video_id url =
     (if str_contains ''youtu.be'' url then
        (case index_py (str_split ''youtu.be/'' url) 1 of
           Inl e \<Rightarrow> Inl e
         | Inr rest \<Rightarrow> index_py (str_split ''?'' rest) 0)
      else if str_contains ''youtube.com'' url then
        (case index_py (str_split ''v='' url) 1 of
           Inl e \<Rightarrow> Inl e
         | Inr rest \<Rightarrow> index_py (str_split ''&'' rest) 0)
      else Inl (ValueError ''Invalid YouTube URL format''))"

section \<open>External collaborators and the observable state\<close>

text \<open>
  The caption-retrieval library, the audio downloader, the speech-to-text model, the
  completion service and the operating system are outside the script. They are taken as
  parameters: \<open>'tl\<close> is the library's transcript-list object, \<open>'tr\<close> its transcript
  (caption track) object. A call that raises returns \<open>Inl\<close>.
\<close>

record ('tl, 'tr) services =
  list_transcripts :: "string \<Rightarrow> error + 'tl"
  find_manually_created_transcript :: "'tl \<Rightarrow> string list \<Rightarrow> error + 'tr"
  find_generated_transcript :: "'tl \<Rightarrow> string list \<Rightarrow> error + 'tr"
  language_code :: "'tr \<Rightarrow> string"
  translate :: "'tr \<Rightarrow> string \<Rightarrow> error + 'tr"
  fetch :: "'tr \<Rightarrow> error + string list"
  first_audio_stream :: "string \<Rightarrow> error + nat option"
  mkdtemp :: "string set \<Rightarrow> error + string"
  stream_download :: "string \<Rightarrow> nat \<Rightarrow> error + unit"
  whisper_transcribe :: "string \<Rightarrow> error + string"
  os_denies :: "string \<Rightarrow> bool"
  chat_completion :: "(string \<times> string) list \<Rightarrow> nat option \<Rightarrow> error + string"

text \<open>The calls made to the backing services, in order.\<close>

datatype 'tr event =
    ListTranscripts string
  | FindManuallyCreated "string list"
  | FindGenerated "string list"
  | Translate 'tr string
  | Fetch 'tr
  | AudioStreams string
  | StreamDownload string nat
  | Transcribe string
  | ChatCompletion "(string \<times> string) list" "nat option"

text \<open>What the page shows.\<close>

datatype ui_msg =
    StWarning string
  | StError string
  | StInfo string
  | StMarkdown string
  | StWrite string
  | StSpinner string
  | StTitle string
  | StVideoEmbed string

text \<open>
  The dictionary \<^verbatim>\<open>{'text': ..., 'original_language': ...}\<close>; the key
  \<^verbatim>\<open>'text'\<close> is the field \<open>result_text\<close>.
\<close>

record transcript_result =
  result_text :: string
  original_language :: string

record 'tr state =
  calls :: "'tr event list"
  files :: "string set"
  dirs :: "string set"
  ui :: "ui_msg list"
  clock :: nat
  transcript_cache :: "((string \<times> string) \<times> nat \<times> transcript_result) list"
  summary_cache :: "(string \<times> nat \<times> string) list"

definition log_call :: "'tr event \<Rightarrow> 'tr state \<Rightarrow> 'tr state" where
  "log_call ev s = s\<lparr>calls := calls s @ [ev]\<rparr>"

definition show_ui :: "ui_msg \<Rightarrow> 'tr state \<Rightarrow> 'tr state" where
  "show_ui m s = s\<lparr>ui := ui s @ [m]\<rparr>"

section \<open>Paths and the temporary file\<close>

text \<open>\<^verbatim>\<open>os.path.join(a, b)\<close> on POSIX, two components.\<close>

definition path_join :: "string \<Rightarrow> string \<Rightarrow> string" where
  "path_join a b =
     (if prefix ''/'' b then b
      else if a = [] \<or> last a = CHR ''/'' then a @ b
      else a @ ''/'' @ b)"

text \<open>\<^verbatim>\<open>s.rstrip('/')\<close>.\<close>

definition rstrip_slash :: "string \<Rightarrow> string" where
  "rstrip_slash p = rev (dropWhile (\<lambda>c. c = CHR ''/'') (rev p))"

text \<open>
  \<^verbatim>\<open>os.path.dirname(p)\<close> on POSIX: everything up to and including the last slash,
  with trailing slashes stripped unless the head consists of slashes only.
\<close>

definition path_dirname :: "string \<Rightarrow> string" where
  "path_dirname p =
     (let head = rev (dropWhile (\<lambda>c. c \<noteq> CHR ''/'') (rev p))
      in if head \<noteq> [] \<and> head \<noteq> replicate (length head) (CHR ''/'')
         then rstrip_slash head else head)"

text \<open>
  \<^verbatim>\<open>os.remove(p)\<close>: the file must exist and the system must allow the removal.
\<close>

definition os_remove :: "('tl, 'tr) services \<Rightarrow> string \<Rightarrow> 'tr state \<Rightarrow> error + 'tr state" where
  "os_remove svc p s =
     (if p \<in> files s \<and> \<not> os_denies svc p then Inr (s\<lparr>files := files s - {p}\<rparr>)
      else Inl (LibraryError ''OSError''))"

text \<open>
  \<^verbatim>\<open>os.rmdir(d)\<close>: the directory must exist, hold no file, and the system must
  allow the removal.
\<close>

definition os_rmdir :: "('tl, 'tr) services \<Rightarrow> string \<Rightarrow> 'tr state \<Rightarrow> error + 'tr state" where
  "os_rmdir svc d s =
     (if d \<in> dirs s \<and> \<not> (\<exists>f \<in> files s. path_dirname f = d) \<and> \<not> os_denies svc d
      then Inr (s\<lparr>dirs := dirs s - {d}\<rparr>)
      else Inl (LibraryError ''OSError''))"

section \<open>download_audio and transcribe_audio (app.py, lines 147-168)\<close>

text \<open>
  Every exception inside \<^verbatim>\<open>download_audio\<close> is re-raised as
  \<^verbatim>\<open>Exception("Error downloading audio: ...")\<close>. A missing audio stream is \<^verbatim>\<open>None\<close>,
  and the call of its \<^verbatim>\<open>download\<close> then raises (an AttributeError) after the
  directory was made.
\<close>

definition download_error :: "error \<Rightarrow> error" where
  "download_error e = PyException (''Error downloading audio: '' @ str_of_error e)"

definition none_has_no_download :: error where
  "none_has_no_download =
     LibraryError ([CHR 0x27] @ ''NoneType'' @ [CHR 0x27] @ '' object has no attribute ''
                   @ [CHR 0x27] @ ''download'' @ [CHR 0x27])"

definition download_audio ::
  "('tl, 'tr) services \<Rightarrow> string \<Rightarrow> 'tr state \<Rightarrow> (error + string) \<times> 'tr state" where
  "download_audio svc url s =
     (let s1 = log_call (AudioStreams url) s in
      case first_audio_stream svc url of
        Inl e \<Rightarrow> (Inl (download_error e), s1)
      | Inr audio_stream \<Rightarrow>
          (case mkdtemp svc (dirs s1) of
             Inl e \<Rightarrow> (Inl (download_error e), s1)
           | Inr temp_dir \<Rightarrow>
               (let s2 = s1\<lparr>dirs := insert temp_dir (dirs s1)\<rparr>;
                    temp_audio_path = path_join temp_dir ''audio.mp4''
                in case audio_stream of
                     None \<Rightarrow> (Inl (download_error none_has_no_download), s2)
                   | Some itag \<Rightarrow>
                       (let s3 = log_call (StreamDownload url itag) s2 in
                        case stream_download svc url itag of
                          Inl e \<Rightarrow> (Inl (download_error e), s3)
                        | Inr _ \<Rightarrow>
                            (Inr temp_audio_path,
                             s3\<lparr>files := insert temp_audio_path (files s3)\<rparr>)))))"

definition transcribe_audio ::
  "('tl, 'tr) services \<Rightarrow> string \<Rightarrow> 'tr state \<Rightarrow> (error + string) \<times> 'tr state" where
  "transcribe_audio svc audio_path s =
     (let s1 = log_call (Transcribe audio_path) s in
      case whisper_transcribe svc audio_path of
        Inl e \<Rightarrow> (Inl (PyException (''Error transcribing audio: '' @ str_of_error e)), s1)
      | Inr out \<Rightarrow> (Inr out, s1))"

section \<open>get_transcript (app.py, lines 170-215)\<close>

definition supported_languages :: "string list" where
  "supported_languages = [''en'', ''hi'', ''mr'', ''es'', ''fr'', ''de'', ''ja'', ''ko'', ''ru'']"

text \<open>
  Lines 194-198: remove the file, then its directory; a failure of either is swallowed
  (and a failed \<^verbatim>\<open>os.remove\<close> skips the \<^verbatim>\<open>os.rmdir\<close>).
\<close>

definition cleanup_audio :: "('tl, 'tr) services \<Rightarrow> string \<Rightarrow> 'tr state \<Rightarrow> 'tr state" where
  "cleanup_audio svc audio_path s =
     (case os_remove svc audio_path s of
        Inl _ \<Rightarrow> s
      | Inr s1 \<Rightarrow>
          (case os_rmdir svc (path_dirname audio_path) s1 of
             Inl _ \<Rightarrow> s1
           | Inr s2 \<Rightarrow> s2))"

text \<open>Lines 185-203: the speech-to-text fallback.\<close>

definition stt_fallback ::
  "('tl, 'tr) services \<Rightarrow> string \<Rightarrow> 'tr state \<Rightarrow> (error + transcript_result) \<times> 'tr state" where
  "stt_fallback svc url s =
     (let s1 = show_ui (StWarning ''No YouTube subtitles found. Falling back to speech-to-text...'') s;
          s2 = show_ui (StSpinner ''Downloading audio...'') s1
      in case download_audio svc url s2 of
           (Inl e, s3) \<Rightarrow> (Inl e, s3)
         | (Inr audio_path, s3) \<Rightarrow>
             (let s4 = show_ui (StSpinner ''Transcribing audio (this may take a few minutes)...'') s3
              in case transcribe_audio svc audio_path s4 of
                   (Inl e, s5) \<Rightarrow> (Inl e, s5)
                 | (Inr transcribed_text, s5) \<Rightarrow>
                     (Inr \<lparr>result_text = transcribed_text, original_language = ''auto-detected''\<rparr>,
                      cleanup_audio svc audio_path s5)))"

text \<open>Lines 205-211: translate when the languages differ, then fetch and join.\<close>

definition fetch_text ::
  "('tl, 'tr) services \<Rightarrow> 'tr \<Rightarrow> string \<Rightarrow> 'tr state \<Rightarrow> (error + transcript_result) \<times> 'tr state" where
  "fetch_text svc transcript original_lang s =
     (let s1 = log_call (Fetch transcript) s in
      case fetch svc transcript of
        Inl e \<Rightarrow> (Inl e, s1)
      | Inr segs \<Rightarrow> (Inr \<lparr>result_text = str_join '' '' segs, original_language = original_lang\<rparr>, s1))"

definition translate_and_fetch ::
  "('tl, 'tr) services \<Rightarrow> 'tr \<Rightarrow> string \<Rightarrow> 'tr state \<Rightarrow> (error + transcript_result) \<times> 'tr state" where
  "translate_and_fetch svc transcript target_lang s =
     (let original_lang = language_code svc transcript in
      if target_lang \<noteq> original_lang then
        (let s1 = log_call (Translate transcript target_lang) s in
         case translate svc transcript target_lang of
           Inl e \<Rightarrow> (Inl e, s1)
         | Inr translated \<Rightarrow> fetch_text svc translated original_lang s1)
      else fetch_text svc transcript original_lang s)"

text \<open>The body of the outer \<^verbatim>\<open>try\<close>.\<close>

definition get_transcript_body ::
  "('tl, 'tr) services \<Rightarrow> string \<Rightarrow> string \<Rightarrow> 'tr state \<Rightarrow> (error + transcript_result) \<times> 'tr state" where
  "get_transcript_body svc url target_lang s =
     (case index_py (str_split ''v='' url) 1 of
        Inl e \<Rightarrow> (Inl e, s)
      | Inr video_id \<Rightarrow>
          (let s1 = log_call (ListTranscripts video_id) s in
           case list_transcripts svc video_id of
             Inl e \<Rightarrow> (Inl e, s1)
           | Inr transcript_list \<Rightarrow>
               (let s2 = log_call (FindManuallyCreated supported_languages) s1 in
                case find_manually_created_transcript svc transcript_list supported_languages of
                  Inr transcript \<Rightarrow> translate_and_fetch svc transcript target_lang s2
                | Inl _ \<Rightarrow>
                    (let s3 = log_call (FindGenerated supported_languages) s2 in
                     case find_generated_transcript svc transcript_list supported_languages of
                       Inr transcript \<Rightarrow> translate_and_fetch svc transcript target_lang s3
                     | Inl _ \<Rightarrow> stt_fallback svc url s3))))"

text \<open>The outer handler shows an error banner and re-raises.\<close>

definition get_transcript ::
  "('tl, 'tr) services \<Rightarrow> string \<Rightarrow> string \<Rightarrow> 'tr state \<Rightarrow> (error + transcript_result) \<times> 'tr state" where
  "get_transcript svc url target_lang s =
     (case get_transcript_body svc url target_lang s of
        (Inl e, s') \<Rightarrow>
          (Inl e, show_ui (StError ''Error fetching transcript. Please make sure the video URL is valid.'') s')
      | (Inr r, s') \<Rightarrow> (Inr r, s'))"

section \<open>The memoised entry points (app.py, lines 47-68)\<close>

text \<open>
  Modelled from the spec: the decorator \<^verbatim>\<open>@st.cache_data(ttl=3600)\<close> belongs to the UI
  framework, whose code is not part of the script. The spec describes it as a
  time-bounded memoisation of results, keyed by the arguments, with a fixed expiry
  window: a small key-value store with the time of storing. A returned result is stored
  under its key; a lookup within the window answers from the store and does not run the
  body; an exception is not a result and is not stored.
\<close>

definition cache_ttl :: nat where
  "cache_ttl = 3600"

text \<open>
  Modelled from the spec: a lookup answers from an entry whose window has not expired.
\<close>

definition cache_get :: "nat \<Rightarrow> ('k \<times> nat \<times> 'v) list \<Rightarrow> 'k \<Rightarrow> 'v option" where
  "cache_get now c k =
     (case map_of c k of
        None \<Rightarrow> None
      | Some (stored, v) \<Rightarrow> if now < stored + cache_ttl then Some v else None)"

text \<open>Modelled from the spec: a result is stored with the time of storing.\<close>

definition cache_put :: "nat \<Rightarrow> ('k \<times> nat \<times> 'v) list \<Rightarrow> 'k \<Rightarrow> 'v \<Rightarrow> ('k \<times> nat \<times> 'v) list" where
  "cache_put now c k v = (k, (now, v)) # c"

text \<open>
  Lines 48-50: the body is the call of \<^verbatim>\<open>get_transcript\<close>; the decorator is the store
  above, keyed by the two arguments.
\<close>

definition get_cached_transcript ::
  "('tl, 'tr) services \<Rightarrow> string \<Rightarrow> string \<Rightarrow> 'tr state \<Rightarrow> (error + transcript_result) \<times> 'tr state" where
  "get_cached_transcript svc url target_lang s =
     (case cache_get (clock s) (transcript_cache s) (url, target_lang) of
        Some r \<Rightarrow> (Inr r, s)
      | None \<Rightarrow>
          (case get_transcript svc url target_lang s of
             (Inl e, s') \<Rightarrow> (Inl e, s')
           | (Inr r, s') \<Rightarrow>
               (Inr r, s'\<lparr>transcript_cache :=
                           cache_put (clock s') (transcript_cache s') (url, target_lang) r\<rparr>)))"

definition newline :: string where
  "newline = [CHR 0x0A]"

definition prompt :: string where
  "prompt = str_join newline
     [''You are an advanced AI specializing in text summarization. Your task is to generate a structured and detailed summary of a YouTube transcript.'',
      '''',
      ''Instructions:'',
      ''1. Extract all key points, facts, and relevant details'',
      ''2. Provide a well-organized, structured summary'',
      ''3. Use clear and engaging language'',
      ''4. Focus on the main topics and important information'',
      ''5. Be concise but comprehensive'',
      ''6. Avoid repetition'',
      ''7. Do not include any reasoning steps or self-reflections'',
      ''8. Do not mention sponsorships or brand names'',
      ''9. End with '' @ [CHR 0x22] @ ''Have a nice day!'' @ [CHR 0x22],
      '''',
      ''Output Format:'',
      ''1. Summary: A clear overview of the main topics'',
      ''2. Key Points: Important facts and details in bullet points'',
      ''3. Insights: Deep observations and analysis'',
      '''',
      ''Now, please summarize the following transcript:'']"

text \<open>
  The request to the completion service: the messages as (role, content) pairs and
  \<^verbatim>\<open>max_tokens\<close> when given. The model name is the same literal at both call sites;
  the temperature is given exactly when \<^verbatim>\<open>max_tokens\<close> is.
\<close>

definition summary_messages :: "string \<Rightarrow> (string \<times> string) list" where
  "summary_messages transcript_text =
     [(''system'', ''You are a helpful assistant that creates detailed summaries of YouTube videos.''),
      (''user'', prompt @ newline @ newline @ transcript_text)]"

definition generate_summary ::
  "('tl, 'tr) services \<Rightarrow> string \<Rightarrow> 'tr state \<Rightarrow> (error + string) \<times> 'tr state" where
  "generate_summary svc transcript_text s =
     (let s1 = log_call (ChatCompletion (summary_messages transcript_text) (Some 2000)) s in
      case chat_completion svc (summary_messages transcript_text) (Some 2000) of
        Inl e \<Rightarrow> (Inl e, s1)
      | Inr content \<Rightarrow> (Inr content, s1))"

text \<open>Lines 53-68, under the same decorator, keyed by the transcript text.\<close>

definition generate_cached_summary ::
  "('tl, 'tr) services \<Rightarrow> string \<Rightarrow> 'tr state \<Rightarrow> (error + string) \<times> 'tr state" where
  "generate_cached_summary svc transcript_text s =
     (case cache_get (clock s) (summary_cache s) transcript_text of
        Some r \<Rightarrow> (Inr r, s)
      | None \<Rightarrow>
          (case generate_summary svc transcript_text s of
             (Inl e, s') \<Rightarrow> (Inl e, s')
           | (Inr r, s') \<Rightarrow>
               (Inr r, s'\<lparr>summary_cache :=
                           cache_put (clock s') (summary_cache s') transcript_text r\<rparr>)))"

section \<open>The page (app.py, lines 217-309)\<close>

text \<open>What the user did on this run of the script.\<close>

record page_inputs =
  url_input :: string
  target_language :: string
  summary_btn :: bool
  user_question :: string
  ask_btn :: bool
  transcript_btn :: bool

text \<open>Lines 267-276. (The calls of the logger are not modelled.)\<close>

definition summary_btn_handler :: "('tl, 'tr) services \<Rightarrow> string \<Rightarrow> 'tr state \<Rightarrow> 'tr state" where
  "summary_btn_handler svc url s =
     (let s0 = show_ui (StSpinner ''Generating summary...'') s in
      case get_cached_transcript svc url ''en'' s0 of
        (Inl e, s1) \<Rightarrow>
          show_ui (StError ''An error occurred while generating the summary. Please try again.'') s1
      | (Inr transcript_data, s1) \<Rightarrow>
          (case generate_cached_summary svc (result_text transcript_data) s1 of
             (Inl e, s2) \<Rightarrow>
               show_ui (StError ''An error occurred while generating the summary. Please try again.'') s2
           | (Inr summary, s2) \<Rightarrow>
               show_ui (StWrite summary) (show_ui (StMarkdown ''### Summary'') s2)))"

text \<open>Lines 281-292.\<close>

definition ask_btn_handler ::
  "('tl, 'tr) services \<Rightarrow> string \<Rightarrow> string \<Rightarrow> 'tr state \<Rightarrow> 'tr state" where
  "ask_btn_handler svc url question s =
     (let s0 = show_ui (StSpinner ''Thinking...'') s in
      case get_transcript svc url ''en'' s0 of
        (Inl e, s1) \<Rightarrow> show_ui (StError (''An error occurred: '' @ str_of_error e)) s1
      | (Inr transcript_data, s1) \<Rightarrow>
          (let chat_prompt = ''Based on this video transcript: '' @ result_text transcript_data
                 @ newline @ newline @ ''Question: '' @ question
                 @ newline @ newline @ ''Answer:'';
               s2 = log_call (ChatCompletion [(''user'', chat_prompt)] None) s1
           in case chat_completion svc [(''user'', chat_prompt)] None of
                Inl e \<Rightarrow> show_ui (StError (''An error occurred: '' @ str_of_error e)) s2
              | Inr content \<Rightarrow> show_ui (StWrite content) s2))"

text \<open>Lines 295-304.\<close>

definition transcript_btn_handler ::
  "('tl, 'tr) services \<Rightarrow> string \<Rightarrow> string \<Rightarrow> 'tr state \<Rightarrow> 'tr state" where
  "transcript_btn_handler svc url lang s =
     (let s0 = show_ui (StSpinner ''Fetching transcript...'') s in
      case get_cached_transcript svc url lang s0 of
        (Inl e, s1) \<Rightarrow>
          show_ui (StError (''An error occurred while fetching transcript: '' @ str_of_error e)) s1
      | (Inr transcript_data, s1) \<Rightarrow>
          show_ui (StWrite (result_text transcript_data))
            (show_ui (StMarkdown ''### Video Transcription'')
               (show_ui (StInfo (''Original video language detected: ''
                                  @ original_language transcript_data)) s1)))"

text \<open>
  One run of the script from the title on (the start-up of the client and of the
  speech-to-text model and the styling of the page are not modelled). An IndexError of the extraction reaches the
  handler of line 306, any other exception the handler of line 308; the three button
  handlers catch every exception themselves.
\<close>

definition app_main :: "('tl, 'tr) services \<Rightarrow> page_inputs \<Rightarrow> 'tr state \<Rightarrow> 'tr state" where
  "app_main svc inp s =
     (let s0 = show_ui (StTitle ''YouTube Video Summarizer'') s in
      if url_input inp = [] then s0
      else
        (case extract_video_id (url_input inp) of
           Inl IndexError \<Rightarrow>
             show_ui (StError ''Invalid YouTube URL. Please enter a valid YouTube video URL.'') s0
         | Inl e \<Rightarrow>
             show_ui (StError (''An unexpected error occurred: '' @ str_of_error e)) s0
         | Inr video_id \<Rightarrow>
             (let s1 = show_ui (StMarkdown ''### Transcript'') (show_ui (StVideoEmbed video_id) s0);
                  s2 = (if summary_btn inp then summary_btn_handler svc (url_input inp) s1 else s1);
                  s3 = show_ui (StMarkdown ''### Ask AI about the video'') s2;
                  s4 = (if user_question inp \<noteq> [] \<and> ask_btn inp
                        then ask_btn_handler svc (url_input inp) (user_question inp) s3 else s3)
              in if transcript_btn inp
                 then transcript_btn_handler svc (url_input inp) (target_language inp) s4
                 else s4)))"

section \<open>Concrete collaborators for the worked scenarios\<close>

text \<open>The state of a fresh session: nothing called, shown, stored or cached.\<close>

definition empty_state :: "'tr state" where
  "empty_state =
     \<lparr>calls = [], files = {}, dirs = {}, ui = [], clock = 0,
      transcript_cache = [], summary_cache = []\<rparr>"

text \<open>
  A caption service over a fixed list of tracks, each with its language code, its kind
  and its segments' texts. A lookup walks the requested language codes in order and
  answers with the first one that has a track of the requested kind. Translation relabels
  the track; fetching yields the segments. The audio downloader stores into
  \<^verbatim>\<open>/tmp/tmpa1b2\<close>, the speech-to-text model answers \<open>stt\<close>, the system refuses no
  removal.
\<close>

record caption_track =
  track_language :: string
  track_is_generated :: bool
  track_segments :: "string list"

fun find_track :: "bool \<Rightarrow> caption_track list \<Rightarrow> string list \<Rightarrow> error + caption_track" where
  "find_track generated tracks [] = Inl (LibraryError ''NoTranscriptFound'')"
| "find_track generated tracks (l # ls) =
     (case List.find (\<lambda>t. track_is_generated t = generated \<and> track_language t = l) tracks of
        Some t \<Rightarrow> Inr t
      | None \<Rightarrow> find_track generated tracks ls)"

definition stub_services ::
  "caption_track list \<Rightarrow> error + string \<Rightarrow> (caption_track list, caption_track) services" where
  "stub_services tracks stt =
     \<lparr>list_transcripts = (\<lambda>video_id. Inr tracks),
      find_manually_created_transcript = find_track False,
      find_generated_transcript = find_track True,
      language_code = track_language,
      translate = (\<lambda>t lang. Inr (t\<lparr>track_language := lang, track_is_generated := True\<rparr>)),
      fetch = (\<lambda>t. Inr (track_segments t)),
      first_audio_stream = (\<lambda>url. Inr (Some 140)),
      mkdtemp = (\<lambda>existing. Inr ''/tmp/tmpa1b2''),
      stream_download = (\<lambda>url itag. Inr ()),
      whisper_transcribe = (\<lambda>path. stt),
      os_denies = (\<lambda>path. False),
      chat_completion = (\<lambda>messages max_tokens. Inr ''Summary.'')\<rparr>"

definition manual_english :: caption_track where
  "manual_english =
     \<lparr>track_language = ''en'', track_is_generated = False,
      track_segments = [''Hello'', ''world'']\<rparr>"

section \<open>Notions used to state the properties\<close>

text \<open>The calls that belong to the audio path: stream lookup, download, transcription.\<close>

definition is_audio_call :: "'tr event \<Rightarrow> bool" where
  "is_audio_call ev =
     (case ev of AudioStreams _ \<Rightarrow> True | StreamDownload _ _ \<Rightarrow> True | Transcribe _ \<Rightarrow> True
      | _ \<Rightarrow> False)"

text \<open>
  What using the caption track \<open>t\<close> for the target language \<open>lang\<close> amounts to: its
  translation when the languages differ, the fetched segments joined by single spaces,
  and the language code of \<open>t\<close> itself.
\<close>

definition track_outcome :: "('tl, 'tr) services \<Rightarrow> 'tr \<Rightarrow> string \<Rightarrow> error + transcript_result" where
  "track_outcome svc t lang =
     (case (if lang \<noteq> language_code svc t then translate svc t lang else Inr t) of
        Inl e \<Rightarrow> Inl e
      | Inr t' \<Rightarrow>
          (case fetch svc t' of
             Inl e \<Rightarrow> Inl e
           | Inr segs \<Rightarrow>
               Inr \<lparr>result_text = str_join '' '' segs, original_language = language_code svc t\<rparr>))"

text \<open>The caption track of steps 1 and 2: the manual one, else the generated one.\<close>

definition found_track :: "('tl, 'tr) services \<Rightarrow> 'tl \<Rightarrow> 'tr option" where
  "found_track svc tlist =
     (case find_manually_created_transcript svc tlist supported_languages of
        Inr t \<Rightarrow> Some t
      | Inl _ \<Rightarrow>
          (case find_generated_transcript svc tlist supported_languages of
             Inr t \<Rightarrow> Some t
           | Inl _ \<Rightarrow> None))"

definition watch_url :: string where
  "watch_url = ''https://www.youtube.com/watch?v=abc123''"

definition generated_hindi :: caption_track where
  "generated_hindi =
     \<lparr>track_language = ''hi'', track_is_generated = True,
      track_segments = [''namaste'', ''duniya'']\<rparr>"

definition silent_track :: caption_track where
  "silent_track = \<lparr>track_language = ''en'', track_is_generated = False, track_segments = []\<rparr>"

text \<open>
  A manual Hindi track, and a caption service whose translation of a track has segments
  of its own.
\<close>

definition manual_hindi :: caption_track where
  "manual_hindi =
     \<lparr>track_language = ''hi'', track_is_generated = False, track_segments = [''namaste'']\<rparr>"

definition translating_services :: "(caption_track list, caption_track) services" where
  "translating_services =
     (stub_services [manual_hindi] (Inr []))
       \<lparr>translate := (\<lambda>t lang.
          Inr \<lparr>track_language = lang, track_is_generated = True, track_segments = [''hello'']\<rparr>)\<rparr>"

text \<open>A press on Generate Summary with French selected in the language box.\<close>

definition summary_click :: page_inputs where
  "summary_click =
     \<lparr>url_input = watch_url, target_language = ''fr'', summary_btn = True,
      user_question = [], ask_btn = False, transcript_btn = False\<rparr>"

section \<open>Facts about splitting\<close>

lemma str_contains_sublist: "str_contains sub s = sublist sub s"
  by (induction s) (simp_all add: sublist_Cons_right)


lemma prefix_before_foreign:
  "prefix sep (xs @ q # rest) \<Longrightarrow> q \<notin> set sep \<Longrightarrow> prefix sep xs"
  by (auto simp: prefix_append prefix_Cons)

lemma no_overlap:
  assumes occ: "prefix (b @ [l]) (pre @ (b @ [l]) @ rest)"
    and fresh: "l \<notin> set b" and ne: "pre \<noteq> []"
  shows "prefix (b @ [l]) pre"
proof (rule ccontr)
  assume np: "\<not> prefix (b @ [l]) pre"
  from occ have "prefix (b @ [l]) pre \<or> (\<exists>us. b @ [l] = pre @ us \<and> prefix us ((b @ [l]) @ rest))"
    by (simp only: prefix_append)
  with np obtain us where us: "b @ [l] = pre @ us" "prefix us ((b @ [l]) @ rest)"
    by blast
  from np us(1) have "us \<noteq> []" by auto
  with us(1) obtain us' where us': "us = us' @ [l]" "b = pre @ us'"
    by (cases us rule: rev_cases) auto
  from us' ne have len: "length us \<le> length b" by (cases pre) auto
  have "prefix b ((b @ [l]) @ rest)" by simp
  with us(2) len have "prefix us b" using prefix_length_prefix by blast
  then have "set us \<subseteq> set b" by (rule set_mono_prefix)
  with us'(1) fresh show False by auto
qed

lemma split_acc_first:
  assumes fresh: "l \<notin> set b"
  shows "\<not> str_contains (b @ [l]) pre \<Longrightarrow>
     str_split_acc (b @ [l]) acc (pre @ (b @ [l]) @ rest)
       = (rev acc @ pre) # str_split_acc (b @ [l]) [] rest"
proof (induction pre arbitrary: acc)
  case Nil
  show ?case by (subst str_split_acc.simps) simp
next
  case (Cons c cs)
  from Cons.prems have a: "\<not> prefix (b @ [l]) (c # cs)" and b: "\<not> str_contains (b @ [l]) cs"
    by simp_all
  from a no_overlap [OF _ fresh, of "c # cs" rest]
  have "\<not> prefix (b @ [l]) ((c # cs) @ (b @ [l]) @ rest)" by blast
  with Cons.IH [OF b, of "c # acc"] show ?case
    by (subst str_split_acc.simps) simp
qed

lemma split_acc_head: "\<exists>r ps. str_split_acc sep acc s = (rev acc @ r) # ps"
proof (induction sep acc s rule: str_split_acc.induct)
  case (1 sep acc s)
  show ?case
  proof (cases "s = []")
    case True
    then show ?thesis by (subst str_split_acc.simps) simp
  next
    case ne: False
    show ?thesis
    proof (cases "sep \<noteq> [] \<and> prefix sep s")
      case True
      with ne show ?thesis by (subst str_split_acc.simps) simp
    next
      case False
      with ne "1.IH"(2) obtain r ps where
        "str_split_acc sep (hd s # acc) (tl s) = (rev (hd s # acc) @ r) # ps" by blast
      with ne False show ?thesis by (subst str_split_acc.simps) auto
    qed
  qed
qed

lemma split_acc_keeps:
  assumes foreign: "q \<notin> set sep"
  shows "\<not> str_contains sep ident \<Longrightarrow>
     \<exists>r ps. str_split_acc sep acc (ident @ q # rest) = (rev acc @ ident @ q # r) # ps"
proof (induction ident arbitrary: acc)
  case Nil
  from foreign have "\<not> prefix sep (q # rest) \<or> sep = []" by (auto simp: prefix_Cons)
  moreover obtain r ps where "str_split_acc sep (q # acc) rest = (rev (q # acc) @ r) # ps"
    using split_acc_head by blast
  ultimately show ?case by (subst str_split_acc.simps) auto
next
  case (Cons c cs)
  from Cons.prems have a: "\<not> prefix sep (c # cs)" and b: "\<not> str_contains sep cs"
    by simp_all
  from a prefix_before_foreign [OF _ foreign, of "c # cs" rest]
  have "\<not> prefix sep ((c # cs) @ q # rest)" by blast
  moreover from Cons.IH [OF b, of "c # acc"] obtain r ps where
    "str_split_acc sep (c # acc) (cs @ q # rest) = (rev (c # acc) @ cs @ q # r) # ps" by blast
  ultimately show ?case by (subst str_split_acc.simps) auto
qed


lemma str_contains_middle: "str_contains sub (a @ sub @ b)"
  by (simp add: str_contains_sublist)

lemma str_contains_char: "str_contains [c] s \<longleftrightarrow> c \<in> set s"
  by (induction s) (auto simp: prefix_Cons)

lemma split_first:
  "l \<notin> set b \<Longrightarrow> \<not> str_contains (b @ [l]) pre \<Longrightarrow>
     str_split (b @ [l]) (pre @ (b @ [l]) @ rest) = pre # str_split (b @ [l]) rest"
  using split_acc_first [of l b pre "[]" rest] by (simp add: str_split_def)

lemma split_keeps:
  "q \<notin> set sep \<Longrightarrow> \<not> str_contains sep ident \<Longrightarrow>
     \<exists>r ps. str_split sep (ident @ q # rest) = (ident @ q # r) # ps"
  using split_acc_keeps [of q sep ident "[]" rest] by (simp add: str_split_def)

lemma cut_at_marker:
  assumes "l \<notin> set b" and "q \<notin> set (b @ [l])"
    and "\<not> str_contains (b @ [l]) pre" and "\<not> str_contains (b @ [l]) ident"
    and "q \<notin> set ident"
  shows "\<exists>piece. index_py (str_split (b @ [l]) (pre @ (b @ [l]) @ ident @ q # rest)) 1 = Inr piece
           \<and> index_py (str_split [q] piece) 0 = Inr ident"
proof -
  from split_keeps [OF assms(2) assms(4), of rest] obtain r ps where
    tail: "str_split (b @ [l]) (ident @ q # rest) = (ident @ q # r) # ps" by blast
  with split_first [OF assms(1) assms(3), of "ident @ q # rest"]
  have "index_py (str_split (b @ [l]) (pre @ (b @ [l]) @ ident @ q # rest)) 1
          = Inr (ident @ q # r)"
    by (simp add: index_py_def)
  moreover from assms(5) have "\<not> str_contains ([] @ [q]) ident"
    by (simp add: str_contains_char)
  from split_first [OF _ this, of r] have "index_py (str_split [q] (ident @ q # r)) 0 = Inr ident"
    by (simp add: index_py_def)
  ultimately show ?thesis by blast
qed

lemma no_v_eq_after_watch:
  assumes "\<not> str_contains ''v='' pre"
  shows "\<not> str_contains ''v='' (pre @ ''youtube.com/watch?'')"
proof
  assume "str_contains ''v='' (pre @ ''youtube.com/watch?'')"
  then have "sublist ''v='' (pre @ ''youtube.com/watch?'')" by (simp add: str_contains_sublist)
  then consider "sublist ''v='' pre" | "sublist ''v='' ''youtube.com/watch?''"
    | xs1 xs2 where "''v='' = xs1 @ xs2" "suffix xs1 pre" "prefix xs2 ''youtube.com/watch?''"
    unfolding sublist_append by blast
  then show False
  proof cases
    case 1
    with assms show False by (simp add: str_contains_sublist)
  next
    case 2
    then have "str_contains ''v='' ''youtube.com/watch?''" by (simp add: str_contains_sublist)
    then show False by code_simp
  next
    case 3
    from 3(1) have "xs1 = [] \<and> xs2 = ''v='' \<or> xs1 = ''v'' \<and> xs2 = ''='' \<or> xs1 = ''v='' \<and> xs2 = []"
      by (auto simp: append_eq_Cons_conv Cons_eq_append_conv)
    with 3(2,3) assms show False
      by (auto simp: str_contains_sublist)
  qed
qed

text \<open>
  Where the extraction does yield the identifier: the cut is at the first occurrence of
  the separator, so the part before the marker and the identifier must not hold it.
\<close>

lemma extract_video_id_first_occurrence:
  "(\<forall>pre ident rest.
      \<not> str_contains ''youtu.be/'' pre \<and> \<not> str_contains ''youtu.be/'' ident
        \<and> \<not> str_contains ''?'' ident \<longrightarrow>
      extract_video_id (pre @ ''youtu.be/'' @ ident @ ''?'' @ rest) = Inr ident)
   \<and> (\<forall>pre ident rest.
      \<not> str_contains ''youtu.be'' (pre @ ''youtube.com/watch?v='' @ ident @ ''&'' @ rest)
        \<and> \<not> str_contains ''v='' pre \<and> \<not> str_contains ''v='' ident
        \<and> \<not> str_contains ''&'' ident \<longrightarrow>
      extract_video_id (pre @ ''youtube.com/watch?v='' @ ident @ ''&'' @ rest) = Inr ident)
   \<and> (\<forall>url. \<not> str_contains ''youtu.be'' url \<and> \<not> str_contains ''youtube.com'' url \<longrightarrow>
      extract_video_id url = Inl (ValueError ''Invalid YouTube URL format''))"
proof -
  have short: "extract_video_id (pre @ ''youtu.be/'' @ ident @ ''?'' @ rest) = Inr ident"
    if a: "\<not> str_contains ''youtu.be/'' pre" and b: "\<not> str_contains ''youtu.be/'' ident"
      and c: "\<not> str_contains ''?'' ident" for pre ident rest
  proof -
    have marker: "str_contains ''youtu.be'' (pre @ ''youtu.be/'' @ ident @ ''?'' @ rest)"
      using str_contains_middle [of "''youtu.be''" pre "''/'' @ ident @ ''?'' @ rest"] by simp
    from c have c': "CHR ''?'' \<notin> set ident" by (simp add: str_contains_char)
    from cut_at_marker [of "CHR ''/''" "''youtu.be''" "CHR ''?''" pre ident rest] a b c'
    obtain piece where
      "index_py (str_split ''youtu.be/'' (pre @ ''youtu.be/'' @ ident @ ''?'' @ rest)) 1 = Inr piece"
      "index_py (str_split ''?'' piece) 0 = Inr ident"
      by auto
    with marker show ?thesis by (simp add: extract_video_id_def)
  qed
  have long: "extract_video_id (pre @ ''youtube.com/watch?v='' @ ident @ ''&'' @ rest) = Inr ident"
    if n: "\<not> str_contains ''youtu.be'' (pre @ ''youtube.com/watch?v='' @ ident @ ''&'' @ rest)"
      and a: "\<not> str_contains ''v='' pre" and b: "\<not> str_contains ''v='' ident"
      and c: "\<not> str_contains ''&'' ident" for pre ident rest
  proof -
    have marker: "str_contains ''youtube.com'' (pre @ ''youtube.com/watch?v='' @ ident @ ''&'' @ rest)"
      using str_contains_middle [of "''youtube.com''" pre "''/watch?v='' @ ident @ ''&'' @ rest"]
      by simp
    from c have c': "CHR ''&'' \<notin> set ident" by (simp add: str_contains_char)
    from cut_at_marker [of "CHR ''=''" "''v''" "CHR ''&''" "pre @ ''youtube.com/watch?''" ident rest]
      no_v_eq_after_watch [OF a] b c'
    obtain piece where
      "index_py (str_split ''v='' (pre @ ''youtube.com/watch?v='' @ ident @ ''&'' @ rest)) 1 = Inr piece"
      "index_py (str_split ''&'' piece) 0 = Inr ident"
      by auto
    with marker n show ?thesis by (simp add: extract_video_id_def)
  qed
  have neither: "extract_video_id url = Inl (ValueError ''Invalid YouTube URL format'')"
    if "\<not> str_contains ''youtu.be'' url" and "\<not> str_contains ''youtube.com'' url" for url
    using that by (simp add: extract_video_id_def)
  from short long neither show ?thesis by blast
qed

section \<open>Facts about the resolver\<close>

lemmas fallback_defs =
  stt_fallback_def download_audio_def transcribe_audio_def cleanup_audio_def
  os_remove_def os_rmdir_def

lemma translate_and_fetch_result:
  "fst (translate_and_fetch svc t lang s) = track_outcome svc t lang"
  by (simp add: translate_and_fetch_def fetch_text_def track_outcome_def Let_def
      split: sum.splits)

lemma get_transcript_calls:
  "calls (snd (get_transcript svc url lang s)) = calls (snd (get_transcript_body svc url lang s))"
  "fst (get_transcript svc url lang s) = fst (get_transcript_body svc url lang s)"
  by (simp_all add: get_transcript_def show_ui_def split: prod.splits sum.splits)

lemma translate_and_fetch_exact:
  "fst (translate_and_fetch svc t lang s)
     = (case (if lang = language_code svc t then Inr t else translate svc t lang) of
          Inl e \<Rightarrow> Inl e
        | Inr t' \<Rightarrow>
            (case fetch svc t' of
               Inl e \<Rightarrow> Inl e
             | Inr segs \<Rightarrow>
                 Inr \<lparr>result_text = str_join '' '' segs,
                      original_language = language_code svc t\<rparr>))"
  "calls (snd (translate_and_fetch svc t lang s))
     = calls s @ (if lang = language_code svc t then [Fetch t]
                  else Translate t lang
                       # (case translate svc t lang of Inl e \<Rightarrow> [] | Inr t' \<Rightarrow> [Fetch t']))"
  by (simp_all add: translate_and_fetch_def fetch_text_def log_call_def Let_def
      split: sum.splits)

lemma stt_fallback_downloaded:
  assumes "first_audio_stream svc url = Inr (Some itag)"
    and "mkdtemp svc (dirs s) = Inr d"
    and "stream_download svc url itag = Inr u"
  shows "fst (stt_fallback svc url s)
           = (case whisper_transcribe svc (path_join d ''audio.mp4'') of
                Inl e \<Rightarrow> Inl (PyException (''Error transcribing audio: '' @ str_of_error e))
              | Inr out \<Rightarrow> Inr \<lparr>result_text = out, original_language = ''auto-detected''\<rparr>)"
    and "calls (snd (stt_fallback svc url s))
           = calls s @ [AudioStreams url, StreamDownload url itag,
                        Transcribe (path_join d ''audio.mp4'')]"
  using assms
  by (simp_all add: fallback_defs log_call_def show_ui_def Let_def split: sum.splits)

lemma stt_fallback_not_downloaded:
  assumes "\<not> (\<exists>itag d u. first_audio_stream svc url = Inr (Some itag)
                 \<and> mkdtemp svc (dirs s) = Inr d \<and> stream_download svc url itag = Inr u)"
  shows "\<exists>e. fst (stt_fallback svc url s) = Inl (download_error e)"
    and "\<exists>rest. calls (snd (stt_fallback svc url s)) = calls s @ AudioStreams url # rest
           \<and> (\<forall>p. Transcribe p \<notin> set rest)"
  using assms
  by (auto simp: fallback_defs log_call_def show_ui_def Let_def split: sum.splits option.splits)

lemma get_transcript_body_found:
  assumes "index_py (str_split ''v='' url) 1 = Inr vid"
    and "list_transcripts svc vid = Inr tlist"
    and "found_track svc tlist = Some t"
  shows "\<exists>pre. get_transcript_body svc url lang s
            = translate_and_fetch svc t lang (s\<lparr>calls := calls s @ pre\<rparr>)
          \<and> (\<forall>x. Fetch x \<notin> set pre) \<and> (\<forall>x l. Translate x l \<notin> set pre)"
  using assms
  by (auto simp: get_transcript_body_def found_track_def log_call_def Let_def
      split: sum.splits)

lemma get_transcript_body_audio:
  assumes "index_py (str_split ''v='' url) 1 = Inr vid"
    and "list_transcripts svc vid = Inr tlist"
    and "found_track svc tlist = None"
  shows "get_transcript_body svc url lang s
           = stt_fallback svc url
               (s\<lparr>calls := calls s @ [ListTranscripts vid, FindManuallyCreated supported_languages,
                                         FindGenerated supported_languages]\<rparr>)"
  using assms
  by (auto simp: get_transcript_body_def found_track_def log_call_def Let_def
      split: sum.splits)

lemma stt_fallback_result:
  assumes "stt_fallback svc url s = (Inr r, s')"
  shows "original_language r = ''auto-detected''
         \<and> (\<exists>p. whisper_transcribe svc p = Inr (result_text r))
         \<and> (\<exists>new. calls s' = calls s @ new \<and> (\<forall>t l. Translate t l \<notin> set new)
                    \<and> (\<exists>p. Transcribe p \<in> set new \<and> whisper_transcribe svc p = Inr (result_text r)))"
  using assms
  by (auto simp: fallback_defs log_call_def show_ui_def Let_def
      split: sum.splits option.splits if_splits)

lemma str_join_space_empty:
  "str_join '' '' segs = [] \<longleftrightarrow> segs = [] \<or> segs = [[]]"
  by (induction "'' ''" segs rule: str_join.induct) auto

lemma translate_and_fetch_frame:
  "clock (snd (translate_and_fetch svc t lang s)) = clock s"
  "transcript_cache (snd (translate_and_fetch svc t lang s)) = transcript_cache s"
  "\<exists>new. calls (snd (translate_and_fetch svc t lang s)) = calls s @ new
      \<and> (\<forall>x l. Translate x l \<in> set new \<longrightarrow> l = lang)"
  by (simp_all add: translate_and_fetch_def fetch_text_def log_call_def Let_def
      split: sum.splits)

lemma stt_fallback_frame:
  "clock (snd (stt_fallback svc url s)) = clock s"
  "transcript_cache (snd (stt_fallback svc url s)) = transcript_cache s"
  "\<exists>new. calls (snd (stt_fallback svc url s)) = calls s @ new
      \<and> (\<forall>x l. Translate x l \<notin> set new)"
  by (simp_all add: fallback_defs log_call_def show_ui_def Let_def
      split: sum.splits option.splits)

lemma get_transcript_body_frame:
  "clock (snd (get_transcript_body svc url lang s)) = clock s"
  "transcript_cache (snd (get_transcript_body svc url lang s)) = transcript_cache s"
  "\<exists>new. calls (snd (get_transcript_body svc url lang s)) = calls s @ new
      \<and> (\<forall>x l. Translate x l \<in> set new \<longrightarrow> l = lang)"
proof -
  show "clock (snd (get_transcript_body svc url lang s)) = clock s"
    by (simp add: get_transcript_body_def log_call_def Let_def translate_and_fetch_frame
        stt_fallback_frame split: sum.splits)
  show "transcript_cache (snd (get_transcript_body svc url lang s)) = transcript_cache s"
    by (simp add: get_transcript_body_def log_call_def Let_def translate_and_fetch_frame
        stt_fallback_frame split: sum.splits)
  show "\<exists>new. calls (snd (get_transcript_body svc url lang s)) = calls s @ new
      \<and> (\<forall>x l. Translate x l \<in> set new \<longrightarrow> l = lang)"
  proof (cases "index_py (str_split ''v='' url) 1")
    case (Inl e)
    then show ?thesis by (simp add: get_transcript_body_def)
  next
    case vid: (Inr vid)
    show ?thesis
    proof (cases "list_transcripts svc vid")
      case (Inl e)
      with vid show ?thesis by (simp add: get_transcript_body_def log_call_def)
    next
      case tl: (Inr tlist)
      show ?thesis
      proof (cases "found_track svc tlist")
        case None
        let ?pre = "[ListTranscripts vid, FindManuallyCreated supported_languages,
                     FindGenerated supported_languages]"
        from stt_fallback_frame(3) [of svc url "s\<lparr>calls := calls s @ ?pre\<rparr>"]
        obtain new where "calls (snd (get_transcript_body svc url lang s)) = calls s @ ?pre @ new"
          and "\<forall>x l. Translate x l \<notin> set new"
          unfolding get_transcript_body_audio [OF vid tl None] by auto
        then show ?thesis by (intro exI [of _ "?pre @ new"]) auto
      next
        case (Some t)
        from get_transcript_body_found [OF vid tl Some, of lang s] obtain pre where
          body: "get_transcript_body svc url lang s
                   = translate_and_fetch svc t lang (s\<lparr>calls := calls s @ pre\<rparr>)"
          and pre: "\<forall>x l. Translate x l \<notin> set pre" by blast
        from translate_and_fetch_frame(3) [of svc t lang "s\<lparr>calls := calls s @ pre\<rparr>"]
        obtain new where "calls (snd (get_transcript_body svc url lang s)) = calls s @ pre @ new"
          and "\<forall>x l. Translate x l \<in> set new \<longrightarrow> l = lang"
          unfolding body by auto
        with pre show ?thesis by (intro exI [of _ "pre @ new"]) auto
      qed
    qed
  qed
qed

lemma get_transcript_frame:
  "clock (snd (get_transcript svc url lang s)) = clock s"
  "transcript_cache (snd (get_transcript svc url lang s)) = transcript_cache s"
  "\<exists>new. calls (snd (get_transcript svc url lang s)) = calls s @ new
      \<and> (\<forall>x l. Translate x l \<in> set new \<longrightarrow> l = lang)"
  using get_transcript_body_frame [of svc url lang s]
  by (auto simp: get_transcript_def show_ui_def split: prod.splits sum.splits)

lemma get_cached_transcript_frame:
  "\<exists>new. calls (snd (get_cached_transcript svc url lang s)) = calls s @ new
      \<and> (\<forall>x l. Translate x l \<in> set new \<longrightarrow> l = lang)"
  "fst ` set (transcript_cache (snd (get_cached_transcript svc url lang s)))
     \<subseteq> insert (url, lang) (fst ` set (transcript_cache s))"
  using get_transcript_frame [of svc url lang s]
  by (auto simp: get_cached_transcript_def cache_put_def split: option.splits prod.splits sum.splits)

lemma generate_cached_summary_frame:
  "\<exists>new. calls (snd (generate_cached_summary svc txt s)) = calls s @ new
      \<and> (\<forall>x l. Translate x l \<notin> set new)"
  "transcript_cache (snd (generate_cached_summary svc txt s)) = transcript_cache s"
  by (auto simp: generate_cached_summary_def generate_summary_def log_call_def Let_def
      split: option.splits prod.splits sum.splits)

lemma summary_btn_handler_frame:
  "\<exists>new. calls (summary_btn_handler svc url s) = calls s @ new
      \<and> (\<forall>x l. Translate x l \<in> set new \<longrightarrow> l = ''en'')"
  "fst ` set (transcript_cache (summary_btn_handler svc url s))
     \<subseteq> insert (url, ''en'') (fst ` set (transcript_cache s))"
proof -
  let ?s0 = "show_ui (StSpinner ''Generating summary...'') s"
  obtain res s1 where tr: "get_cached_transcript svc url ''en'' ?s0 = (res, s1)"
    by (cases "get_cached_transcript svc url ''en'' ?s0")
  from get_cached_transcript_frame [of svc url "''en''" ?s0] tr
  obtain new1 where c1: "calls s1 = calls s @ new1"
    and t1: "\<forall>x l. Translate x l \<in> set new1 \<longrightarrow> l = ''en''"
    and k1: "fst ` set (transcript_cache s1) \<subseteq> insert (url, ''en'') (fst ` set (transcript_cache s))"
    by (auto simp: show_ui_def)
  show "\<exists>new. calls (summary_btn_handler svc url s) = calls s @ new
      \<and> (\<forall>x l. Translate x l \<in> set new \<longrightarrow> l = ''en'')"
  proof (cases res)
    case (Inl e)
    with tr c1 t1 show ?thesis by (auto simp: summary_btn_handler_def show_ui_def Let_def)
  next
    case (Inr td)
    obtain res2 s2 where su: "generate_cached_summary svc (result_text td) s1 = (res2, s2)"
      by (cases "generate_cached_summary svc (result_text td) s1")
    from generate_cached_summary_frame(1) [of svc "result_text td" s1] su
    obtain new2 where "calls s2 = calls s1 @ new2" and "\<forall>x l. Translate x l \<notin> set new2"
      by auto
    with c1 t1 have "calls s2 = calls s @ (new1 @ new2)
        \<and> (\<forall>x l. Translate x l \<in> set (new1 @ new2) \<longrightarrow> l = ''en'')" by auto
    with tr Inr su show ?thesis
      by (cases res2) (auto simp: summary_btn_handler_def show_ui_def Let_def)
  qed
  show "fst ` set (transcript_cache (summary_btn_handler svc url s))
     \<subseteq> insert (url, ''en'') (fst ` set (transcript_cache s))"
  proof (cases res)
    case (Inl e)
    with tr k1 show ?thesis by (auto simp: summary_btn_handler_def show_ui_def Let_def)
  next
    case (Inr td)
    obtain res2 s2 where su: "generate_cached_summary svc (result_text td) s1 = (res2, s2)"
      by (cases "generate_cached_summary svc (result_text td) s1")
    from generate_cached_summary_frame(2) [of svc "result_text td" s1] su
    have "transcript_cache s2 = transcript_cache s1" by simp
    with tr Inr su k1 show ?thesis
      by (cases res2) (auto simp: summary_btn_handler_def show_ui_def Let_def)
  qed
qed

section \<open>C1: the end-to-end example with the short URL\<close>

text \<open>
  C1. For the URL \<^verbatim>\<open>https://youtu.be/abc123?t=5\<close> the extraction block yields
  \<^verbatim>\<open>abc123\<close>. The resolver is called with the URL, not with the identifier, and cuts
  the URL at \<^verbatim>\<open>v=\<close> itself: on this URL it raises IndexError before any call to the
  caption service, although the service holds a manual English track with the segments
  Hello, world. With the long form of the same video it returns the text
  \<^verbatim>\<open>Hello world\<close> and the language \<^verbatim>\<open>en\<close>.
\<close>

theorem short_url_resolver_raises:
  "extract_video_id ''https://youtu.be/abc123?t=5'' = Inr ''abc123''
   \<and> fst (get_transcript (stub_services [manual_english] (Inr []))
          ''https://youtu.be/abc123?t=5'' ''en'' empty_state) = Inl IndexError
   \<and> calls (snd (get_transcript (stub_services [manual_english] (Inr []))
          ''https://youtu.be/abc123?t=5'' ''en'' empty_state)) = []
   \<and> fst (get_transcript (stub_services [manual_english] (Inr []))
          ''https://www.youtube.com/watch?v=abc123'' ''en'' empty_state)
       = Inr \<lparr>result_text = ''Hello world'', original_language = ''en''\<rparr>"
  by code_simp

section \<open>C2: removal of the temporary audio file\<close>

text \<open>
  C2. On the audio path the file and its directory are removed only after a
  transcription that returned: lines 194-198 follow the call of line 191 without a
  \<^verbatim>\<open>finally\<close>. When the speech-to-text model raises, the resolver raises
  \<^verbatim>\<open>Error transcribing audio: ...\<close> and both the file and the directory are still
  there; when it answers, both are gone.
\<close>

theorem transcription_failure_leaves_audio:
  "fst (get_transcript (stub_services [] (Inl (LibraryError ''model failure''))) watch_url ''en''
          empty_state)
     = Inl (PyException ''Error transcribing audio: model failure'')
   \<and> ''/tmp/tmpa1b2/audio.mp4''
       \<in> files (snd (get_transcript (stub_services [] (Inl (LibraryError ''model failure'')))
                        watch_url ''en'' empty_state))
   \<and> ''/tmp/tmpa1b2''
       \<in> dirs (snd (get_transcript (stub_services [] (Inl (LibraryError ''model failure'')))
                       watch_url ''en'' empty_state))
   \<and> ''/tmp/tmpa1b2/audio.mp4''
       \<notin> files (snd (get_transcript (stub_services [] (Inr ''spoken words''))
                        watch_url ''en'' empty_state))
   \<and> ''/tmp/tmpa1b2''
       \<notin> dirs (snd (get_transcript (stub_services [] (Inr ''spoken words''))
                       watch_url ''en'' empty_state))"
  by code_simp

section \<open>C3: the order of the sources\<close>

text \<open>
  A manual Hindi track with the segment \<^verbatim>\<open>namaste\<close>, asked for in English, at a
  service whose English translation of it reads \<^verbatim>\<open>hello\<close>: the resolver returns
  the text of the translation, not the text of the track.
\<close>

theorem translated_text_is_not_the_tracks:
  "list_transcripts translating_services ''abc123'' = Inr [manual_hindi]
   \<and> find_manually_created_transcript translating_services [manual_hindi] supported_languages
       = Inr manual_hindi
   \<and> fetch translating_services manual_hindi = Inr [''namaste'']
   \<and> fst (get_transcript translating_services watch_url ''en'' empty_state)
       = Inr \<lparr>result_text = ''hello'', original_language = ''hi''\<rparr>"
  by code_simp

text \<open>
  C3, amended. Once the URL has been cut and the caption service has listed the tracks,
  the resolver asks for a manual track first. If there is one, nothing else is tried:
  the track is fetched when it is in the target language and translated into the target
  language and then fetched when it is not; the result is the fetched segments joined by
  single spaces with the language code of the track, or the error of the translation or
  of the fetch; the call log holds no generated lookup and no call of the audio path.
  If there is none, the generated lookup is made and its track is used in the same way.
  Only when both lookups fail does the resolver turn to the audio path: when the
  download succeeds the result is the output of the speech-to-text model on the
  downloaded file, with the language \<^verbatim>\<open>auto-detected\<close>, or its wrapped error;
  when the download fails the result is the wrapped download error and no transcription
  is made.
\<close>

theorem sources_tried_in_order:
  assumes vid: "index_py (str_split ''v='' url) 1 = Inr vid"
    and tl: "list_transcripts svc vid = Inr tlist"
    and run: "get_transcript svc url lang s = (res, s')"
  shows
    "(\<forall>t. find_manually_created_transcript svc tlist supported_languages = Inr t \<longrightarrow>
        res = (case (if lang = language_code svc t then Inr t else translate svc t lang) of
                 Inl e \<Rightarrow> Inl e
               | Inr t' \<Rightarrow>
                   (case fetch svc t' of
                      Inl e \<Rightarrow> Inl e
                    | Inr segs \<Rightarrow>
                        Inr \<lparr>result_text = str_join '' '' segs,
                             original_language = language_code svc t\<rparr>))
        \<and> calls s' = calls s @ [ListTranscripts vid, FindManuallyCreated supported_languages]
             @ (if lang = language_code svc t then [Fetch t]
                else Translate t lang
                     # (case translate svc t lang of Inl e \<Rightarrow> [] | Inr t' \<Rightarrow> [Fetch t'])))
     \<and> (\<forall>e t. find_manually_created_transcript svc tlist supported_languages = Inl e
            \<and> find_generated_transcript svc tlist supported_languages = Inr t \<longrightarrow>
        res = (case (if lang = language_code svc t then Inr t else translate svc t lang) of
                 Inl e \<Rightarrow> Inl e
               | Inr t' \<Rightarrow>
                   (case fetch svc t' of
                      Inl e \<Rightarrow> Inl e
                    | Inr segs \<Rightarrow>
                        Inr \<lparr>result_text = str_join '' '' segs,
                             original_language = language_code svc t\<rparr>))
        \<and> calls s' = calls s @ [ListTranscripts vid, FindManuallyCreated supported_languages,
                                  FindGenerated supported_languages]
             @ (if lang = language_code svc t then [Fetch t]
                else Translate t lang
                     # (case translate svc t lang of Inl e \<Rightarrow> [] | Inr t' \<Rightarrow> [Fetch t'])))
     \<and> (\<forall>e e' itag d u. find_manually_created_transcript svc tlist supported_languages = Inl e
            \<and> find_generated_transcript svc tlist supported_languages = Inl e'
            \<and> first_audio_stream svc url = Inr (Some itag) \<and> mkdtemp svc (dirs s) = Inr d
            \<and> stream_download svc url itag = Inr u \<longrightarrow>
        res = (case whisper_transcribe svc (path_join d ''audio.mp4'') of
                 Inl e \<Rightarrow> Inl (PyException (''Error transcribing audio: '' @ str_of_error e))
               | Inr out \<Rightarrow> Inr \<lparr>result_text = out, original_language = ''auto-detected''\<rparr>)
        \<and> calls s' = calls s @ [ListTranscripts vid, FindManuallyCreated supported_languages,
                                  FindGenerated supported_languages, AudioStreams url,
                                  StreamDownload url itag, Transcribe (path_join d ''audio.mp4'')])
     \<and> (\<forall>e e'. find_manually_created_transcript svc tlist supported_languages = Inl e
            \<and> find_generated_transcript svc tlist supported_languages = Inl e'
            \<and> \<not> (\<exists>itag d u. first_audio_stream svc url = Inr (Some itag)
                     \<and> mkdtemp svc (dirs s) = Inr d \<and> stream_download svc url itag = Inr u) \<longrightarrow>
        (\<exists>cause. res = Inl (download_error cause))
        \<and> (\<exists>rest. calls s' = calls s @ [ListTranscripts vid, FindManuallyCreated supported_languages,
                                          FindGenerated supported_languages, AudioStreams url] @ rest
               \<and> (\<forall>p. Transcribe p \<notin> set rest)))"
proof -
  from run have res: "res = fst (get_transcript_body svc url lang s)"
    and s': "calls s' = calls (snd (get_transcript_body svc url lang s))"
    using get_transcript_calls [of svc url lang s] by simp_all
  let ?s1 = "log_call (ListTranscripts vid) s"
  let ?s2 = "log_call (FindManuallyCreated supported_languages) ?s1"
  let ?s3 = "log_call (FindGenerated supported_languages) ?s2"
  have c2: "calls ?s2 = calls s @ [ListTranscripts vid, FindManuallyCreated supported_languages]"
    and c3: "calls ?s3 = calls s @ [ListTranscripts vid, FindManuallyCreated supported_languages,
                                     FindGenerated supported_languages]"
    and d3: "dirs ?s3 = dirs s"
    by (simp_all add: log_call_def)
  have manual: "get_transcript_body svc url lang s = translate_and_fetch svc t lang ?s2"
    if "find_manually_created_transcript svc tlist supported_languages = Inr t" for t
    using that vid tl by (simp add: get_transcript_body_def Let_def)
  have generated: "get_transcript_body svc url lang s = translate_and_fetch svc t lang ?s3"
    if "find_manually_created_transcript svc tlist supported_languages = Inl e"
      and "find_generated_transcript svc tlist supported_languages = Inr t" for e t
    using that vid tl by (simp add: get_transcript_body_def Let_def)
  have audio: "get_transcript_body svc url lang s = stt_fallback svc url ?s3"
    if "find_manually_created_transcript svc tlist supported_languages = Inl e"
      and "find_generated_transcript svc tlist supported_languages = Inl e'" for e e'
    using that vid tl by (simp add: get_transcript_body_def Let_def)
  show ?thesis
  proof (intro conjI allI impI)
    fix t assume "find_manually_created_transcript svc tlist supported_languages = Inr t"
    note body = manual [OF this]
    show "res = (case (if lang = language_code svc t then Inr t else translate svc t lang) of
                 Inl e \<Rightarrow> Inl e
               | Inr t' \<Rightarrow>
                   (case fetch svc t' of
                      Inl e \<Rightarrow> Inl e
                    | Inr segs \<Rightarrow>
                        Inr \<lparr>result_text = str_join '' '' segs,
                             original_language = language_code svc t\<rparr>))"
      unfolding res body by (rule translate_and_fetch_exact(1))
    show "calls s' = calls s @ [ListTranscripts vid, FindManuallyCreated supported_languages]
             @ (if lang = language_code svc t then [Fetch t]
                else Translate t lang
                     # (case translate svc t lang of Inl e \<Rightarrow> [] | Inr t' \<Rightarrow> [Fetch t']))"
      unfolding s' body translate_and_fetch_exact(2) c2 by simp
  next
    fix e t assume "find_manually_created_transcript svc tlist supported_languages = Inl e
            \<and> find_generated_transcript svc tlist supported_languages = Inr t"
    then have body: "get_transcript_body svc url lang s = translate_and_fetch svc t lang ?s3"
      using generated by blast
    show "res = (case (if lang = language_code svc t then Inr t else translate svc t lang) of
                 Inl e \<Rightarrow> Inl e
               | Inr t' \<Rightarrow>
                   (case fetch svc t' of
                      Inl e \<Rightarrow> Inl e
                    | Inr segs \<Rightarrow>
                        Inr \<lparr>result_text = str_join '' '' segs,
                             original_language = language_code svc t\<rparr>))"
      unfolding res body by (rule translate_and_fetch_exact(1))
    show "calls s' = calls s @ [ListTranscripts vid, FindManuallyCreated supported_languages,
                                  FindGenerated supported_languages]
             @ (if lang = language_code svc t then [Fetch t]
                else Translate t lang
                     # (case translate svc t lang of Inl e \<Rightarrow> [] | Inr t' \<Rightarrow> [Fetch t']))"
      unfolding s' body translate_and_fetch_exact(2) c3 by simp
  next
    fix e e' itag d u
    assume a: "find_manually_created_transcript svc tlist supported_languages = Inl e
            \<and> find_generated_transcript svc tlist supported_languages = Inl e'
            \<and> first_audio_stream svc url = Inr (Some itag) \<and> mkdtemp svc (dirs s) = Inr d
            \<and> stream_download svc url itag = Inr u"
    then have body: "get_transcript_body svc url lang s = stt_fallback svc url ?s3"
      using audio by blast
    from a d3 have dl: "first_audio_stream svc url = Inr (Some itag)"
      "mkdtemp svc (dirs ?s3) = Inr d" "stream_download svc url itag = Inr u" by simp_all
    show "res = (case whisper_transcribe svc (path_join d ''audio.mp4'') of
                 Inl e \<Rightarrow> Inl (PyException (''Error transcribing audio: '' @ str_of_error e))
               | Inr out \<Rightarrow> Inr \<lparr>result_text = out, original_language = ''auto-detected''\<rparr>)"
      unfolding res body by (rule stt_fallback_downloaded(1) [OF dl])
    show "calls s' = calls s @ [ListTranscripts vid, FindManuallyCreated supported_languages,
                                  FindGenerated supported_languages, AudioStreams url,
                                  StreamDownload url itag, Transcribe (path_join d ''audio.mp4'')]"
      unfolding s' body stt_fallback_downloaded(2) [OF dl] c3 by simp
  next
    fix e e'
    assume a: "find_manually_created_transcript svc tlist supported_languages = Inl e
            \<and> find_generated_transcript svc tlist supported_languages = Inl e'
            \<and> \<not> (\<exists>itag d u. first_audio_stream svc url = Inr (Some itag)
                     \<and> mkdtemp svc (dirs s) = Inr d \<and> stream_download svc url itag = Inr u)"
    then have body: "get_transcript_body svc url lang s = stt_fallback svc url ?s3"
      using audio by blast
    from a d3 have nd: "\<not> (\<exists>itag d u. first_audio_stream svc url = Inr (Some itag)
                     \<and> mkdtemp svc (dirs ?s3) = Inr d \<and> stream_download svc url itag = Inr u)"
      by simp
    show "\<exists>cause. res = Inl (download_error cause)"
      unfolding res body by (rule stt_fallback_not_downloaded(1) [OF nd])
    from stt_fallback_not_downloaded(2) [OF nd]
    show "\<exists>rest. calls s' = calls s @ [ListTranscripts vid, FindManuallyCreated supported_languages,
                                          FindGenerated supported_languages, AudioStreams url] @ rest
               \<and> (\<forall>p. Transcribe p \<notin> set rest)"
      unfolding s' body c3 by simp
  qed
qed

text \<open>
  A manual English track asked for in English: the text is \<^verbatim>\<open>Hello world\<close> and
  the log ends with its fetch. No track at all: the log runs through both lookups, the
  download and the transcription, and the text is what the model answered.
\<close>

theorem sources_tried_in_order_witness:
  "find_manually_created_transcript (stub_services [manual_english] (Inr []))
        [manual_english] supported_languages = Inr manual_english
   \<and> fst (get_transcript (stub_services [manual_english] (Inr [])) watch_url ''en'' empty_state)
       = Inr \<lparr>result_text = ''Hello world'', original_language = ''en''\<rparr>
   \<and> calls (snd (get_transcript (stub_services [manual_english] (Inr []))
                    watch_url ''en'' empty_state))
       = [ListTranscripts ''abc123'', FindManuallyCreated supported_languages,
          Fetch manual_english]
   \<and> \<not> list_ex is_audio_call
          (calls (snd (get_transcript (stub_services [manual_english] (Inr []))
                         watch_url ''en'' empty_state)))
   \<and> fst (get_transcript (stub_services [] (Inr ''spoken words'')) watch_url ''en'' empty_state)
       = Inr \<lparr>result_text = ''spoken words'', original_language = ''auto-detected''\<rparr>
   \<and> calls (snd (get_transcript (stub_services [] (Inr ''spoken words''))
                    watch_url ''en'' empty_state))
       = [ListTranscripts ''abc123'', FindManuallyCreated supported_languages,
          FindGenerated supported_languages, AudioStreams watch_url,
          StreamDownload watch_url 140, Transcribe ''/tmp/tmpa1b2/audio.mp4'']"
proof -
  let ?svc = "stub_services [manual_english] (Inr [])"
  let ?run = "get_transcript ?svc watch_url ''en'' empty_state"
  let ?aud = "stub_services [] (Inr ''spoken words'')"
  let ?arun = "get_transcript ?aud watch_url ''en'' empty_state"
  have vid: "index_py (str_split ''v='' watch_url) 1 = Inr ''abc123''" by code_simp
  have start: "calls (empty_state :: caption_track state) = []"
    "dirs (empty_state :: caption_track state) = {}" by (simp_all add: empty_state_def)
  have tl: "list_transcripts ?svc ''abc123'' = Inr [manual_english]" by code_simp
  have run: "?run = (fst ?run, snd ?run)" by simp
  have manual: "find_manually_created_transcript ?svc [manual_english] supported_languages
                  = Inr manual_english" by code_simp
  have same: "''en'' = language_code ?svc manual_english" by code_simp
  have segs: "fetch ?svc manual_english = Inr [''Hello'', ''world'']" by code_simp
  from sources_tried_in_order [OF vid tl run] manual
  have "fst ?run = (case (if ''en'' = language_code ?svc manual_english then Inr manual_english
                          else translate ?svc manual_english ''en'') of
                 Inl e \<Rightarrow> Inl e
               | Inr t' \<Rightarrow>
                   (case fetch ?svc t' of
                      Inl e \<Rightarrow> Inl e
                    | Inr segs \<Rightarrow>
                        Inr \<lparr>result_text = str_join '' '' segs,
                             original_language = language_code ?svc manual_english\<rparr>))"
    and "calls (snd ?run) = calls (empty_state :: caption_track state)
             @ [ListTranscripts ''abc123'', FindManuallyCreated supported_languages]
             @ (if ''en'' = language_code ?svc manual_english then [Fetch manual_english]
                else Translate manual_english ''en''
                     # (case translate ?svc manual_english ''en'' of
                          Inl e \<Rightarrow> [] | Inr t' \<Rightarrow> [Fetch t']))"
    by blast+
  with same [symmetric] segs start
  have r1: "fst ?run = Inr \<lparr>result_text = ''Hello world'', original_language = ''en''\<rparr>"
    and c1: "calls (snd ?run) = [ListTranscripts ''abc123'',
               FindManuallyCreated supported_languages, Fetch manual_english]"
    by simp_all
  from c1 have a1: "\<not> list_ex is_audio_call (calls (snd ?run))"
    by (simp add: is_audio_call_def)
  have atl: "list_transcripts ?aud ''abc123'' = Inr []" by code_simp
  have arun: "?arun = (fst ?arun, snd ?arun)" by simp
  have none: "find_manually_created_transcript ?aud [] supported_languages
                = Inl (LibraryError ''NoTranscriptFound'')"
    "find_generated_transcript ?aud [] supported_languages
                = Inl (LibraryError ''NoTranscriptFound'')" by code_simp+
  have dl: "first_audio_stream ?aud watch_url = Inr (Some 140)"
    "mkdtemp ?aud (dirs (empty_state :: caption_track state)) = Inr ''/tmp/tmpa1b2''"
    "stream_download ?aud watch_url 140 = Inr ()" by (simp_all add: stub_services_def)
  have stt: "whisper_transcribe ?aud (path_join ''/tmp/tmpa1b2'' ''audio.mp4'') = Inr ''spoken words''"
    by (simp add: stub_services_def)
  have path: "path_join ''/tmp/tmpa1b2'' ''audio.mp4'' = ''/tmp/tmpa1b2/audio.mp4''" by code_simp
  from sources_tried_in_order [OF vid atl arun] none dl
  have "fst ?arun = (case whisper_transcribe ?aud (path_join ''/tmp/tmpa1b2'' ''audio.mp4'') of
                 Inl e \<Rightarrow> Inl (PyException (''Error transcribing audio: '' @ str_of_error e))
               | Inr out \<Rightarrow> Inr \<lparr>result_text = out, original_language = ''auto-detected''\<rparr>)"
    and "calls (snd ?arun) = calls (empty_state :: caption_track state)
           @ [ListTranscripts ''abc123'', FindManuallyCreated supported_languages,
              FindGenerated supported_languages, AudioStreams watch_url,
              StreamDownload watch_url 140, Transcribe (path_join ''/tmp/tmpa1b2'' ''audio.mp4'')]"
    by blast+
  with stt path start
  have r2: "fst ?arun = Inr \<lparr>result_text = ''spoken words'', original_language = ''auto-detected''\<rparr>"
    and c2: "calls (snd ?arun) = [ListTranscripts ''abc123'', FindManuallyCreated supported_languages,
          FindGenerated supported_languages, AudioStreams watch_url,
          StreamDownload watch_url 140, Transcribe ''/tmp/tmpa1b2/audio.mp4'']"
    by simp_all
  from manual r1 c1 a1 r2 c2 show ?thesis by blast
qed

section \<open>C4: translation of a track in another language\<close>

text \<open>
  C4. When the track found by the manual or the generated lookup has a language code
  other than the target language, the resolver requests its translation into the target
  language; no fetch precedes that request, the only fetch after it is of the translated
  track, and a returned result carries the language code of the track as it was found.
\<close>

theorem translation_before_fetch:
  assumes vid: "index_py (str_split ''v='' url) 1 = Inr vid"
    and tl: "list_transcripts svc vid = Inr tlist"
    and found: "found_track svc tlist = Some t"
    and differs: "language_code svc t \<noteq> lang"
    and run: "get_transcript svc url lang s = (res, s')"
  shows "(\<exists>pre. calls s' = calls s @ pre @ Translate t lang
                     # (case translate svc t lang of Inl e \<Rightarrow> [] | Inr t' \<Rightarrow> [Fetch t'])
               \<and> (\<forall>x. Fetch x \<notin> set pre))
         \<and> (\<forall>r. res = Inr r \<longrightarrow> original_language r = language_code svc t)"
proof -
  from get_transcript_body_found [OF vid tl found, of lang s] obtain pre where
    body: "get_transcript_body svc url lang s
             = translate_and_fetch svc t lang (s\<lparr>calls := calls s @ pre\<rparr>)"
    and pre: "\<forall>x. Fetch x \<notin> set pre" by blast
  from run have res: "res = fst (get_transcript_body svc url lang s)"
    and s': "calls s' = calls (snd (get_transcript_body svc url lang s))"
    using get_transcript_calls [of svc url lang s] by simp_all
  from differs have "calls s' = calls s @ pre @ Translate t lang
                     # (case translate svc t lang of Inl e \<Rightarrow> [] | Inr t' \<Rightarrow> [Fetch t'])"
    unfolding s' body
    by (simp add: translate_and_fetch_def fetch_text_def log_call_def Let_def split: sum.splits)
  moreover have "\<forall>r. res = Inr r \<longrightarrow> original_language r = language_code svc t"
    unfolding res body translate_and_fetch_result
    by (auto simp: track_outcome_def split: sum.splits if_splits)
  ultimately show ?thesis using pre by blast
qed

text \<open>
  The scenario of a single generated Hindi track, asked for in English.
\<close>

theorem translation_before_fetch_witness:
  "found_track (stub_services [generated_hindi] (Inr [])) [generated_hindi] = Some generated_hindi
   \<and> language_code (stub_services [generated_hindi] (Inr [])) generated_hindi \<noteq> ''en''
   \<and> (\<exists>r. fst (get_transcript (stub_services [generated_hindi] (Inr [])) watch_url ''en'' empty_state)
             = Inr r \<and> original_language r = ''hi'')
   \<and> (\<exists>pre. calls (snd (get_transcript (stub_services [generated_hindi] (Inr []))
                          watch_url ''en'' empty_state))
             = pre @ [Translate generated_hindi ''en'',
                      Fetch (generated_hindi\<lparr>track_language := ''en''\<rparr>)]
            \<and> (\<forall>x. Fetch x \<notin> set pre))"
proof -
  let ?svc = "stub_services [generated_hindi] (Inr [])"
  let ?run = "get_transcript ?svc watch_url ''en'' empty_state"
  have vid: "index_py (str_split ''v='' watch_url) 1 = Inr ''abc123''" by code_simp
  have tl: "list_transcripts ?svc ''abc123'' = Inr [generated_hindi]" by code_simp
  have found: "found_track ?svc [generated_hindi] = Some generated_hindi" by code_simp
  have differs: "language_code ?svc generated_hindi \<noteq> ''en''" by code_simp
  have run: "?run = (fst ?run, snd ?run)" by simp
  have lang: "language_code ?svc generated_hindi = ''hi''" by code_simp
  have tr: "translate ?svc generated_hindi ''en''
              = Inr (generated_hindi\<lparr>track_language := ''en''\<rparr>)" by code_simp
  have "fst ?run = Inr \<lparr>result_text = ''namaste duniya'', original_language = ''hi''\<rparr>"
    by code_simp
  then have ok: "\<exists>r. fst ?run = Inr r" by blast
  have start: "calls (empty_state :: caption_track state) = []" by (simp add: empty_state_def)
  note main = translation_before_fetch [OF vid tl found differs run]
  from main ok lang have a: "\<exists>r. fst ?run = Inr r \<and> original_language r = ''hi''" by auto
  from main tr start have b: "\<exists>pre. calls (snd ?run)
             = pre @ [Translate generated_hindi ''en'',
                      Fetch (generated_hindi\<lparr>track_language := ''en''\<rparr>)]
            \<and> (\<forall>x. Fetch x \<notin> set pre)" by auto
  from found differs a b show ?thesis by blast
qed

section \<open>C5: the two URL shapes\<close>

text \<open>
  C5. The long-form URL \<^verbatim>\<open>https://www.youtube.com/watch?v=abc123&feature=youtu.be\<close>
  has the shape \<^verbatim>\<open>*youtube.com/watch?v=<id>&*\<close> with the identifier \<^verbatim>\<open>abc123\<close>.
  The test of line 224 looks for \<^verbatim>\<open>youtu.be\<close> anywhere in the URL and comes first, so
  the URL is cut at \<^verbatim>\<open>youtu.be/\<close>, which it does not contain, and the index raises
  IndexError: the branch of line 226 that handles this shape is never reached. The same
  video with another value of the parameter, in either form, yields \<^verbatim>\<open>abc123\<close>.
\<close>

theorem long_url_with_short_marker_raises:
  "''https://www.youtube.com/watch?v=abc123&feature=youtu.be''
     = ''https://www.'' @ ''youtube.com/watch?v='' @ ''abc123'' @ ''&'' @ ''feature=youtu.be''
   \<and> extract_video_id ''https://www.youtube.com/watch?v=abc123&feature=youtu.be'' = Inl IndexError
   \<and> extract_video_id ''https://www.youtube.com/watch?v=abc123&feature=share'' = Inr ''abc123''
   \<and> extract_video_id ''https://youtu.be/abc123?feature=share'' = Inr ''abc123''"
  by code_simp

section \<open>C6: a marker without its separator\<close>




section \<open>C7: the text of a returned result\<close>

text \<open>
  A manual track without segments, and a speech-to-text output that is empty: in both
  cases the resolver returns, with the empty text.
\<close>

theorem empty_text_returned:
  "fst (get_transcript (stub_services [silent_track] (Inr [])) watch_url ''en'' empty_state)
     = Inr \<lparr>result_text = [], original_language = ''en''\<rparr>
   \<and> fst (get_transcript (stub_services [] (Inr [])) watch_url ''en'' empty_state)
     = Inr \<lparr>result_text = [], original_language = ''auto-detected''\<rparr>"
  by code_simp

text \<open>
  C7, amended. A returned result comes from the track that the lookups found or, when
  they found none, from the audio path. In the first case the last call of the run is
  the fetch of that track, or of its translation into the target language when its
  language differs, and the text is the fetched segments joined by single spaces: it is
  non-empty exactly when that fetch gave at least one segment and not one empty segment
  alone. In the second case the last call is the transcription of the downloaded file
  and the text is the output of the model as it came, with the language
  \<^verbatim>\<open>auto-detected\<close>. Nothing rejects an empty text.
\<close>

theorem result_text_is_joined_segments:
  assumes run: "get_transcript svc url lang s = (Inr r, s')"
  shows "\<exists>vid tlist. index_py (str_split ''v='' url) 1 = Inr vid
           \<and> list_transcripts svc vid = Inr tlist
           \<and> (case found_track svc tlist of
                Some t0 \<Rightarrow>
                  \<exists>t segs pre.
                    (lang = language_code svc t0 \<and> t = t0
                       \<or> lang \<noteq> language_code svc t0 \<and> translate svc t0 lang = Inr t)
                    \<and> calls s' = calls s @ pre @ [Fetch t] \<and> (\<forall>x. Fetch x \<notin> set pre)
                    \<and> fetch svc t = Inr segs
                    \<and> r = \<lparr>result_text = str_join '' '' segs,
                            original_language = language_code svc t0\<rparr>
                    \<and> (result_text r \<noteq> [] \<longleftrightarrow> segs \<noteq> [] \<and> segs \<noteq> [[]])
              | None \<Rightarrow>
                  \<exists>itag d u pre.
                    first_audio_stream svc url = Inr (Some itag)
                    \<and> mkdtemp svc (dirs s) = Inr d \<and> stream_download svc url itag = Inr u
                    \<and> calls s' = calls s @ pre @ [Transcribe (path_join d ''audio.mp4'')]
                    \<and> whisper_transcribe svc (path_join d ''audio.mp4'') = Inr (result_text r)
                    \<and> original_language r = ''auto-detected'')"
proof -
  from run have body: "fst (get_transcript_body svc url lang s) = Inr r"
    and s': "calls s' = calls (snd (get_transcript_body svc url lang s))"
    using get_transcript_calls [of svc url lang s] by simp_all
  from body obtain vid tlist where vid: "index_py (str_split ''v='' url) 1 = Inr vid"
    and tl: "list_transcripts svc vid = Inr tlist"
    by (auto simp: get_transcript_body_def Let_def split: sum.splits)
  have "case found_track svc tlist of
                Some t0 \<Rightarrow>
                  \<exists>t segs pre.
                    (lang = language_code svc t0 \<and> t = t0
                       \<or> lang \<noteq> language_code svc t0 \<and> translate svc t0 lang = Inr t)
                    \<and> calls s' = calls s @ pre @ [Fetch t] \<and> (\<forall>x. Fetch x \<notin> set pre)
                    \<and> fetch svc t = Inr segs
                    \<and> r = \<lparr>result_text = str_join '' '' segs,
                            original_language = language_code svc t0\<rparr>
                    \<and> (result_text r \<noteq> [] \<longleftrightarrow> segs \<noteq> [] \<and> segs \<noteq> [[]])
              | None \<Rightarrow>
                  \<exists>itag d u pre.
                    first_audio_stream svc url = Inr (Some itag)
                    \<and> mkdtemp svc (dirs s) = Inr d \<and> stream_download svc url itag = Inr u
                    \<and> calls s' = calls s @ pre @ [Transcribe (path_join d ''audio.mp4'')]
                    \<and> whisper_transcribe svc (path_join d ''audio.mp4'') = Inr (result_text r)
                    \<and> original_language r = ''auto-detected''"
  proof (cases "found_track svc tlist")
    case None
    let ?pre = "[ListTranscripts vid, FindManuallyCreated supported_languages,
                 FindGenerated supported_languages]"
    let ?s3 = "s\<lparr>calls := calls s @ ?pre\<rparr>"
    note b = get_transcript_body_audio [OF vid tl None, of lang s]
    have "\<exists>itag d u. first_audio_stream svc url = Inr (Some itag)
            \<and> mkdtemp svc (dirs ?s3) = Inr d \<and> stream_download svc url itag = Inr u"
    proof (rule ccontr)
      assume "\<not> ?thesis"
      from stt_fallback_not_downloaded(1) [OF this] body show False unfolding b by auto
    qed
    then obtain itag d u where dl: "first_audio_stream svc url = Inr (Some itag)"
      "mkdtemp svc (dirs ?s3) = Inr d" "stream_download svc url itag = Inr u" by blast
    from stt_fallback_downloaded [OF dl] body s'
    have "whisper_transcribe svc (path_join d ''audio.mp4'') = Inr (result_text r)
          \<and> original_language r = ''auto-detected''"
      and "calls s' = calls s @ (?pre @ [AudioStreams url, StreamDownload url itag])
             @ [Transcribe (path_join d ''audio.mp4'')]"
      unfolding b by (auto split: sum.splits)
    with dl None show ?thesis by (simp del: append.simps)
  next
    case (Some t0)
    from get_transcript_body_found [OF vid tl Some, of lang s] obtain pre where
      b: "get_transcript_body svc url lang s
             = translate_and_fetch svc t0 lang (s\<lparr>calls := calls s @ pre\<rparr>)"
      and pre: "\<forall>x. Fetch x \<notin> set pre" by blast
    show ?thesis
    proof (cases "lang = language_code svc t0")
      case True
      from body s' True obtain segs where "fetch svc t0 = Inr segs"
        "r = \<lparr>result_text = str_join '' '' segs, original_language = language_code svc t0\<rparr>"
        "calls s' = calls s @ pre @ [Fetch t0]"
        unfolding b translate_and_fetch_exact by (auto split: sum.splits)
      with pre True Some str_join_space_empty [of segs] show ?thesis by auto
    next
      case False
      from body s' False obtain t segs where "translate svc t0 lang = Inr t"
        "fetch svc t = Inr segs"
        "r = \<lparr>result_text = str_join '' '' segs, original_language = language_code svc t0\<rparr>"
        "calls s' = calls s @ (pre @ [Translate t0 lang]) @ [Fetch t]"
        unfolding b translate_and_fetch_exact by (auto split: sum.splits)
      moreover from pre have "\<forall>x. Fetch x \<notin> set (pre @ [Translate t0 lang])" by simp
      ultimately show ?thesis using False Some str_join_space_empty [of segs]
        by (simp del: append.simps append_assoc)
    qed
  qed
  with vid tl show ?thesis by blast
qed

text \<open>
  The manual English track: the run ends with its fetch, two segments, a non-empty text.
\<close>

theorem result_text_is_joined_segments_witness:
  "fst (get_transcript (stub_services [manual_english] (Inr [])) watch_url ''en'' empty_state)
     = Inr \<lparr>result_text = ''Hello world'', original_language = ''en''\<rparr>
   \<and> found_track (stub_services [manual_english] (Inr [])) [manual_english] = Some manual_english
   \<and> (\<exists>segs pre. fetch (stub_services [manual_english] (Inr [])) manual_english = Inr segs
          \<and> calls (snd (get_transcript (stub_services [manual_english] (Inr []))
                          watch_url ''en'' empty_state)) = pre @ [Fetch manual_english]
          \<and> ''Hello world'' = str_join '' '' segs \<and> segs \<noteq> [] \<and> segs \<noteq> [[]])"
proof -
  let ?svc = "stub_services [manual_english] (Inr [])"
  let ?run = "get_transcript ?svc watch_url ''en'' empty_state"
  let ?r = "\<lparr>result_text = ''Hello world'', original_language = ''en''\<rparr>"
  have res: "fst ?run = Inr ?r" by code_simp
  then have run: "?run = (Inr ?r, snd ?run)" by (metis prod.collapse)
  have vid: "index_py (str_split ''v='' watch_url) 1 = Inr ''abc123''" by code_simp
  have tl: "list_transcripts ?svc ''abc123'' = Inr [manual_english]" by code_simp
  have found: "found_track ?svc [manual_english] = Some manual_english" by code_simp
  have same: "language_code ?svc manual_english = ''en''" by code_simp
  have start: "calls (empty_state :: caption_track state) = []" by (simp add: empty_state_def)
  from result_text_is_joined_segments [OF run] vid tl
  have "case found_track ?svc [manual_english] of
          Some t0 \<Rightarrow>
            \<exists>t segs pre.
              (''en'' = language_code ?svc t0 \<and> t = t0
                 \<or> ''en'' \<noteq> language_code ?svc t0 \<and> translate ?svc t0 ''en'' = Inr t)
              \<and> calls (snd ?run) = calls (empty_state :: caption_track state) @ pre @ [Fetch t]
              \<and> (\<forall>x. Fetch x \<notin> set pre)
              \<and> fetch ?svc t = Inr segs
              \<and> ?r = \<lparr>result_text = str_join '' '' segs,
                      original_language = language_code ?svc t0\<rparr>
              \<and> (result_text ?r \<noteq> [] \<longleftrightarrow> segs \<noteq> [] \<and> segs \<noteq> [[]])
        | None \<Rightarrow>
            \<exists>itag d u pre.
              first_audio_stream ?svc watch_url = Inr (Some itag)
              \<and> mkdtemp ?svc (dirs (empty_state :: caption_track state)) = Inr d
              \<and> stream_download ?svc watch_url itag = Inr u
              \<and> calls (snd ?run) = calls (empty_state :: caption_track state) @ pre
                   @ [Transcribe (path_join d ''audio.mp4'')]
              \<and> whisper_transcribe ?svc (path_join d ''audio.mp4'') = Inr (result_text ?r)
              \<and> original_language ?r = ''auto-detected''"
    by auto
  with found same start
  have "\<exists>segs pre. fetch ?svc manual_english = Inr segs
          \<and> calls (snd ?run) = pre @ [Fetch manual_english]
          \<and> ''Hello world'' = str_join '' '' segs \<and> segs \<noteq> [] \<and> segs \<noteq> [[]]"
    by auto
  with res found show ?thesis by blast
qed

section \<open>C8: the second call within the window\<close>

text \<open>
  C8. After a call of the memoised resolver that returned the result \<open>r\<close>, the store
  holds \<open>r\<close> under (URL, language) with a time of storing, which is the time of this
  call when the call was a miss. Every later call with the same pair, in any state that
  has this store and a clock within the window of that entry, returns \<open>r\<close> and leaves
  the state as it is: no call is logged, no file touched.
\<close>

theorem second_call_answers_from_cache:
  assumes first: "get_cached_transcript svc url lang s = (Inr r, s1)"
  shows "\<exists>stored. map_of (transcript_cache s1) (url, lang) = Some (stored, r)
           \<and> clock s < stored + cache_ttl
           \<and> (cache_get (clock s) (transcript_cache s) (url, lang) = None \<longrightarrow> stored = clock s)
           \<and> (\<forall>s2. transcript_cache s2 = transcript_cache s1 \<and> clock s2 < stored + cache_ttl \<longrightarrow>
                  get_cached_transcript svc url lang s2 = (Inr r, s2))"
proof (cases "cache_get (clock s) (transcript_cache s) (url, lang)")
  case None
  with first obtain s' where run: "get_transcript svc url lang s = (Inr r, s')"
    and s1: "s1 = s'\<lparr>transcript_cache := cache_put (clock s') (transcript_cache s') (url, lang) r\<rparr>"
    by (auto simp: get_cached_transcript_def split: prod.splits sum.splits)
  from run get_transcript_frame(1) [of svc url lang s] have clk: "clock s' = clock s" by simp
  have entry: "map_of (transcript_cache s1) (url, lang) = Some (clock s, r)"
    by (simp add: s1 cache_put_def clk)
  have again: "get_cached_transcript svc url lang s2 = (Inr r, s2)"
    if "transcript_cache s2 = transcript_cache s1" and "clock s2 < clock s + cache_ttl" for s2
    using that entry by (simp add: get_cached_transcript_def cache_get_def)
  from entry again show ?thesis by (intro exI [of _ "clock s"]) (simp add: cache_ttl_def)
next
  case (Some r')
  with first have eq: "r' = r" "s1 = s"
    by (auto simp: get_cached_transcript_def)
  from Some obtain stored where entry: "map_of (transcript_cache s) (url, lang) = Some (stored, r')"
    and live: "clock s < stored + cache_ttl"
    by (auto simp: cache_get_def split: option.splits if_splits)
  have again: "get_cached_transcript svc url lang s2 = (Inr r, s2)"
    if "transcript_cache s2 = transcript_cache s1" and "clock s2 < stored + cache_ttl" for s2
    using that entry eq by (simp add: get_cached_transcript_def cache_get_def)
  from entry live again eq Some show ?thesis by (intro exI [of _ stored]) simp
qed

text \<open>
  A first call at time 0 and a second call 3599 seconds later.
\<close>

theorem second_call_answers_from_cache_witness:
  "(\<exists>s1. get_cached_transcript (stub_services [manual_english] (Inr [])) watch_url ''en'' empty_state
           = (Inr \<lparr>result_text = ''Hello world'', original_language = ''en''\<rparr>, s1)
        \<and> get_cached_transcript (stub_services [manual_english] (Inr [])) watch_url ''en''
             (s1\<lparr>clock := 3599\<rparr>)
           = (Inr \<lparr>result_text = ''Hello world'', original_language = ''en''\<rparr>, s1\<lparr>clock := 3599\<rparr>))"
proof -
  let ?svc = "stub_services [manual_english] (Inr [])"
  let ?run = "get_cached_transcript ?svc watch_url ''en'' empty_state"
  let ?r = "\<lparr>result_text = ''Hello world'', original_language = ''en''\<rparr>"
  have "fst ?run = Inr ?r" by code_simp
  then have first: "?run = (Inr ?r, snd ?run)" by (metis prod.collapse)
  have miss: "cache_get (clock (empty_state :: caption_track state))
                (transcript_cache (empty_state :: caption_track state)) (watch_url, ''en'') = None"
    by (simp add: empty_state_def cache_get_def)
  have start: "clock (empty_state :: caption_track state) = 0" by (simp add: empty_state_def)
  from second_call_answers_from_cache [OF first] miss start
  have "\<forall>s2. transcript_cache s2 = transcript_cache (snd ?run) \<and> clock s2 < 0 + cache_ttl \<longrightarrow>
           get_cached_transcript ?svc watch_url ''en'' s2 = (Inr ?r, s2)"
    by auto
  then have "get_cached_transcript ?svc watch_url ''en'' ((snd ?run)\<lparr>clock := 3599\<rparr>)
               = (Inr ?r, (snd ?run)\<lparr>clock := 3599\<rparr>)"
    by (simp add: cache_ttl_def)
  with first show ?thesis by blast
qed

section \<open>C9: the language of Generate Summary\<close>

text \<open>
  C9. A run of the page in which Get Transcript is not pressed does not depend on the
  selected language. A run in which only Generate Summary is pressed requests
  translations into \<^verbatim>\<open>en\<close> only, and stores a transcript under no key other than
  (URL, \<^verbatim>\<open>en\<close>).
\<close>

theorem summary_resolves_in_english:
  "app_main svc (inp\<lparr>transcript_btn := False, target_language := l1\<rparr>) s
     = app_main svc (inp\<lparr>transcript_btn := False, target_language := l2\<rparr>) s
   \<and> (\<exists>new. calls (app_main svc (inp\<lparr>summary_btn := True, ask_btn := False,
                                       transcript_btn := False\<rparr>) s) = calls s @ new
          \<and> (\<forall>x l. Translate x l \<in> set new \<longrightarrow> l = ''en''))
   \<and> fst ` set (transcript_cache (app_main svc (inp\<lparr>summary_btn := True, ask_btn := False,
                                                   transcript_btn := False\<rparr>) s))
       \<subseteq> insert (url_input inp, ''en'') (fst ` set (transcript_cache s))"
proof -
  have indep: "app_main svc (inp\<lparr>transcript_btn := False, target_language := l1\<rparr>) s
     = app_main svc (inp\<lparr>transcript_btn := False, target_language := l2\<rparr>) s"
    by (simp add: app_main_def Let_def split: sum.splits error.splits)
  let ?inp = "inp\<lparr>summary_btn := True, ask_btn := False, transcript_btn := False\<rparr>"
  let ?s0 = "show_ui (StTitle ''YouTube Video Summarizer'') s"
  have "(\<exists>new. calls (app_main svc ?inp s) = calls s @ new
          \<and> (\<forall>x l. Translate x l \<in> set new \<longrightarrow> l = ''en''))
      \<and> fst ` set (transcript_cache (app_main svc ?inp s))
          \<subseteq> insert (url_input inp, ''en'') (fst ` set (transcript_cache s))"
  proof (cases "url_input inp = [] \<or> (\<exists>e. extract_video_id (url_input inp) = Inl e)")
    case True
    then show ?thesis
      by (auto simp: app_main_def show_ui_def Let_def split: sum.splits error.splits)
  next
    case False
    then obtain vid where vid: "extract_video_id (url_input inp) = Inr vid"
      and ne: "url_input inp \<noteq> []"
      by (cases "extract_video_id (url_input inp)") auto
    let ?s1 = "show_ui (StMarkdown ''### Transcript'') (show_ui (StVideoEmbed vid) ?s0)"
    have run: "app_main svc ?inp s
            = show_ui (StMarkdown ''### Ask AI about the video'')
                (summary_btn_handler svc (url_input inp) ?s1)"
      using vid ne by (simp add: app_main_def Let_def)
    from summary_btn_handler_frame [of svc "url_input inp" ?s1]
    show ?thesis unfolding run by (auto simp: show_ui_def)
  qed
  with indep show ?thesis by blast
qed

text \<open>
  Generate Summary with French selected, on a video with a generated Hindi track: the
  track is translated into English, and selecting German instead changes nothing.
\<close>

theorem summary_resolves_in_english_witness:
  "app_main (stub_services [generated_hindi] (Inr [])) summary_click empty_state
     = app_main (stub_services [generated_hindi] (Inr []))
         (summary_click\<lparr>target_language := ''de''\<rparr>) empty_state
   \<and> Translate generated_hindi ''en''
       \<in> set (calls (app_main (stub_services [generated_hindi] (Inr [])) summary_click empty_state))
   \<and> map fst (transcript_cache
         (app_main (stub_services [generated_hindi] (Inr [])) summary_click empty_state))
       = [(watch_url, ''en'')]"
proof -
  let ?svc = "stub_services [generated_hindi] (Inr [])"
  have a: "summary_click\<lparr>transcript_btn := False, target_language := ''fr''\<rparr> = summary_click"
    and b: "summary_click\<lparr>transcript_btn := False, target_language := ''de''\<rparr>
              = summary_click\<lparr>target_language := ''de''\<rparr>"
    by (simp_all add: summary_click_def)
  from summary_resolves_in_english [where svc = ?svc and inp = summary_click and ?l1.0 = "''fr''"
      and s = empty_state and ?l2.0 = "''de''"]
  have "app_main ?svc summary_click empty_state
          = app_main ?svc (summary_click\<lparr>target_language := ''de''\<rparr>) empty_state"
    unfolding a b by blast
  moreover have "Translate generated_hindi ''en''
       \<in> set (calls (app_main ?svc summary_click empty_state))"
    by code_simp
  moreover have "map fst (transcript_cache (app_main ?svc summary_click empty_state))
       = [(watch_url, ''en'')]"
    by code_simp
  ultimately show ?thesis by blast
qed

section \<open>C10: the audio path and the target language\<close>

text \<open>
  C10. When neither lookup finds a track, the run of the resolver is the same for any two
  target languages; a returned result has the language \<^verbatim>\<open>auto-detected\<close>, its text
  is what the speech-to-text model answered, and no translation is requested.
\<close>

theorem audio_fallback_ignores_target_language:
  assumes vid: "index_py (str_split ''v='' url) 1 = Inr vid"
    and tl: "list_transcripts svc vid = Inr tlist"
    and none: "found_track svc tlist = None"
  shows "get_transcript svc url lang1 s = get_transcript svc url lang2 s
         \<and> (\<forall>r s'. get_transcript svc url lang1 s = (Inr r, s') \<longrightarrow>
               original_language r = ''auto-detected''
               \<and> (\<exists>p. whisper_transcribe svc p = Inr (result_text r))
               \<and> (\<exists>new. calls s' = calls s @ new \<and> (\<forall>t l. Translate t l \<notin> set new)))"
proof -
  let ?s3 = "s\<lparr>calls := calls s @ [ListTranscripts vid, FindManuallyCreated supported_languages,
                                         FindGenerated supported_languages]\<rparr>"
  have body: "get_transcript_body svc url lang s = stt_fallback svc url ?s3" for lang
    by (rule get_transcript_body_audio [OF vid tl none])
  have same: "get_transcript svc url lang1 s = get_transcript svc url lang2 s"
    by (simp add: get_transcript_def body)
  have shape: "original_language r = ''auto-detected''
               \<and> (\<exists>p. whisper_transcribe svc p = Inr (result_text r))
               \<and> (\<exists>new. calls s' = calls s @ new \<and> (\<forall>t l. Translate t l \<notin> set new))"
    if "get_transcript svc url lang1 s = (Inr r, s')" for r s'
  proof -
    from that have "stt_fallback svc url ?s3 = (Inr r, s')"
      by (auto simp: get_transcript_def body split: prod.splits sum.splits)
    from stt_fallback_result [OF this] show ?thesis by auto
  qed
  from same shape show ?thesis by blast
qed

text \<open>
  No track at all, the model answering \<^verbatim>\<open>spoken words\<close>.
\<close>

theorem audio_fallback_ignores_target_language_witness:
  "found_track (stub_services [] (Inr ''spoken words'')) [] = None
   \<and> get_transcript (stub_services [] (Inr ''spoken words'')) watch_url ''en'' empty_state
       = get_transcript (stub_services [] (Inr ''spoken words'')) watch_url ''fr'' empty_state
   \<and> fst (get_transcript (stub_services [] (Inr ''spoken words'')) watch_url ''fr'' empty_state)
       = Inr \<lparr>result_text = ''spoken words'', original_language = ''auto-detected''\<rparr>"
proof -
  let ?svc = "stub_services [] (Inr ''spoken words'')"
  have vid: "index_py (str_split ''v='' watch_url) 1 = Inr ''abc123''" by code_simp
  have tl: "list_transcripts ?svc ''abc123'' = Inr []" by code_simp
  have none: "found_track ?svc [] = None" by code_simp
  have res: "fst (get_transcript ?svc watch_url ''fr'' empty_state)
       = Inr \<lparr>result_text = ''spoken words'', original_language = ''auto-detected''\<rparr>"
    by code_simp
  from audio_fallback_ignores_target_language [OF vid tl none, of "''en''" empty_state "''fr''"]
  have "get_transcript ?svc watch_url ''en'' empty_state
          = get_transcript ?svc watch_url ''fr'' empty_state" by blast
  with none res show ?thesis by blast
qed

end
